theory Spec2Isabelle
  imports Main
begin

section \<open>JavaScript values, errors and string helpers\<close>

text \<open>
  The scripts are dynamically typed. The values that reach the functions modelled here
  are \<open>undefined\<close>, \<open>null\<close>, (integral) numbers and strings: sheet cells hold numbers
  or strings, column and row indices are numbers, a missing event field is
  \<open>undefined\<close>. Strings are lists of 8-bit code units.
\<close>

datatype jsval = Undefined | Null | Num int | Str string

text \<open>
  A \<open>throw '...'\<close> of the scripts is \<open>Thrown\<close> with its message; \<open>TypeError\<close> is the
  engine's own exception (a property read or a call on \<open>undefined\<close> or \<open>null\<close>, a call
  of something that is not a function).
\<close>

datatype error = Thrown string | TypeError

text \<open>Sequencing of calls that may raise: the first exception ends the run.\<close>

definition andThen :: "error + 'a \<Rightarrow> ('a \<Rightarrow> error + 'b) \<Rightarrow> error + 'b" where
  "andThen m f = (case m of Inl e \<Rightarrow> Inl e | Inr x \<Rightarrow> f x)"

text \<open>
  \<open>String.prototype.trim\<close> on 8-bit code units: TAB, LF, VT, FF, CR, SPACE and
  NO-BREAK SPACE are the white space and line terminators below 256.
\<close>

definition isWhiteSpace :: "char \<Rightarrow> bool" where
  "isWhiteSpace c \<longleftrightarrow> (of_char c :: nat) \<in> {9, 10, 11, 12, 13, 32, 160}"

definition trim :: "string \<Rightarrow> string" where
  "trim s = rev (dropWhile isWhiteSpace (rev (dropWhile isWhiteSpace s)))"

text \<open>
  \<open>String.prototype.toLowerCase\<close> on 8-bit code units: A-Z and the Latin-1 capitals
  (192-222 but the multiplication sign 215) move up by 32.
\<close>

definition lowerChar :: "char \<Rightarrow> char" where
  "lowerChar c =
     (let n = (of_char c :: nat)
      in if (65 \<le> n \<and> n \<le> 90) \<or> (192 \<le> n \<and> n \<le> 222 \<and> n \<noteq> 215)
         then char_of (n + 32) else c)"

definition toLowerCase :: "string \<Rightarrow> string" where
  "toLowerCase s = map lowerChar s"

text \<open>
  Number-to-string conversion of an integral number: its decimal digits (for the
  magnitudes of row, column and entity identifiers: fewer than 22 digits).
\<close>

definition digitChar :: "nat \<Rightarrow> char" where
  "digitChar d = ''0123456789'' ! d"

function showNat :: "nat \<Rightarrow> string" where
  "showNat n = (if n < 10 then [digitChar n] else showNat (n div 10) @ [digitChar (n mod 10)])"
  by pat_completeness auto
termination
  by (relation "measure id") auto

declare showNat.simps [simp del]

definition showInt :: "int \<Rightarrow> string" where
  "showInt i = (if i < 0 then CHR ''-'' # showNat (nat (- i)) else showNat (nat i))"

text \<open>\<open>ToString\<close>, as applied by string concatenation and by property access.\<close>

fun toString :: "jsval \<Rightarrow> string" where
  "toString Undefined = ''undefined''"
| "toString Null = ''null''"
| "toString (Num n) = showInt n"
| "toString (Str s) = s"

text \<open>
  What \<open>JSON.parse\<close> yields, and \<open>undefined\<close>. An object is the list of its own
  properties in enumeration order, each name once.
\<close>

datatype json =
  JUndefined | JNull | JBool bool | JNum int | JStr string
  | JArr "json list" | JObj "(string \<times> json) list"

fun typeOf :: "json \<Rightarrow> string" where
  "typeOf JUndefined = ''undefined''"
| "typeOf JNull = ''object''"
| "typeOf (JBool b) = ''boolean''"
| "typeOf (JNum n) = ''number''"
| "typeOf (JStr s) = ''string''"
| "typeOf (JArr xs) = ''object''"
| "typeOf (JObj kvs) = ''object''"

section \<open>Spreadsheet side: \<open>spreadsheet/js/utils.js\<close>, \<open>spreadsheet/js/main.js\<close>\<close>

subsection \<open>\<open>isEmptyString\<close>\<close>

text \<open>
  \<^verbatim>\<open>function isEmptyString(str) { if (!str) return true;
       if (typeof str === 'string' ...) return str.trim() === ''; return false; }\<close>
  \<open>!str\<close> holds of \<open>undefined\<close>, \<open>null\<close>, \<open>0\<close> and \<open>''\<close>.
\<close>

fun isEmptyString :: "jsval \<Rightarrow> bool" where
  "isEmptyString Undefined = True"
| "isEmptyString Null = True"
| "isEmptyString (Num n) = (n = 0)"
| "isEmptyString (Str s) = (s = [] \<or> trim s = [])"

subsection \<open>\<open>MatchingColumnsBucket\<close>\<close>

text \<open>
  \<open>matchingColumnsBuckets_\<close> is an object whose own properties are the column keys;
  each holds an object whose properties are bucket hashes. A bucket property holds an
  array of row identifiers, or \<open>null\<close> (what \<open>transferBucket\<close> leaves behind), or
  \<open>undefined\<close> (what \<open>transferBucket\<close> stores when it moves a bucket that was not
  there). A property that is absent is \<open>None\<close>. The hash is a 32-bit integer and its
  property name is its decimal form, so the inner object is keyed by the integer itself.
  Only own properties are modelled.
\<close>

datatype slot = SUndefined | SNull | SArr "jsval list"

type_synonym column = "int \<rightharpoonup> slot"
type_synonym buckets = "string \<rightharpoonup> column"

text \<open>
  The names under which a plain object finds a member of \<open>Object.prototype\<close>: the
  standard ones, the legacy accessor helpers, and those that the script engines of the
  time add. Where the index has no own property of such a name,
  \<open>this.matchingColumnsBuckets_[columnKey]\<close> and \<open>columnKey in this.matchingColumnsBuckets_\<close>
  find the inherited member, which the model of own properties does not show. A
  statement whose hypotheses do not make the column an own property is therefore made
  for column keys that are none of these names.
\<close>

definition objectPrototypeNames :: "string list" where
  "objectPrototypeNames =
     [''constructor'', ''toString'', ''toLocaleString'', ''valueOf'', ''hasOwnProperty'',
      ''isPrototypeOf'', ''propertyIsEnumerable'', ''toSource'', ''watch'', ''unwatch'',
      ''__proto__'', ''__parent__'', ''__count__'', ''__noSuchMethod__'',
      ''__defineGetter__'', ''__defineSetter__'', ''__lookupGetter__'', ''__lookupSetter__'']"

definition inheritedName :: "string \<Rightarrow> bool" where
  "inheritedName k \<longleftrightarrow> k \<in> set objectPrototypeNames"

text \<open>
  \<^verbatim>\<open>hash = ((hash << 5) - hash) + chr;  hash |= 0;\<close>
  \<open><<\<close> and \<open>|\<close> convert to a 32-bit two's complement integer; \<open>-\<close> and \<open>+\<close> are exact on
  numbers of this size.
\<close>

definition toInt32 :: "int \<Rightarrow> int" where
  "toInt32 x = (x + 2 ^ 31) mod 2 ^ 32 - 2 ^ 31"

definition shiftLeft5 :: "int \<Rightarrow> int" where
  "shiftLeft5 h = toInt32 (toInt32 h * 32)"

fun hashLoop :: "int \<Rightarrow> string \<Rightarrow> int" where
  "hashLoop hash [] = hash"
| "hashLoop hash (chr # rest) = hashLoop (toInt32 ((shiftLeft5 hash - hash) + of_char chr)) rest"

text \<open>
  A number that is not blank has no \<open>length\<close>: the loop bound is \<open>undefined\<close>, the loop
  body never runs and the hash is 0.
\<close>

definition hashCode :: "jsval \<Rightarrow> int" where
  "hashCode str =
     (if isEmptyString str then 0
      else case str of Str s \<Rightarrow> hashLoop 0 s | _ \<Rightarrow> 0)"

definition addValue :: "jsval \<Rightarrow> jsval \<Rightarrow> jsval \<Rightarrow> buckets \<Rightarrow> error + buckets" where
  "addValue columnKey bucketKey val b =
     (if isEmptyString columnKey \<or> isEmptyString bucketKey \<or> isEmptyString val
      then Inl (Thrown ''columnKey, bucketKey, and value must have valid values.'')
      else
        let k = toString columnKey;
            col = (case b k of None \<Rightarrow> Map.empty | Some c \<Rightarrow> c);
            bucketHash = hashCode bucketKey;
            col' = (case col bucketHash of None \<Rightarrow> col(bucketHash \<mapsto> SArr []) | Some _ \<Rightarrow> col)
        in case col' bucketHash of
             Some (SArr xs) \<Rightarrow> Inr (b(k \<mapsto> col'(bucketHash \<mapsto> SArr (xs @ [val]))))
           | _ \<Rightarrow> Inl TypeError)"

text \<open>
  \<open>getValue\<close> answers \<open>null\<close> when the column is absent, and otherwise whatever the
  bucket property holds (\<open>undefined\<close> when it is absent).
\<close>

definition getValue :: "jsval \<Rightarrow> jsval \<Rightarrow> buckets \<Rightarrow> error + slot" where
  "getValue columnKey bucketKey b =
     (if isEmptyString columnKey \<or> isEmptyString bucketKey
      then Inl (Thrown ''columnKey, and bucketKey must have valid values.'')
      else case b (toString columnKey) of
             Some col \<Rightarrow>
               Inr (case col (hashCode bucketKey) of None \<Rightarrow> SUndefined | Some s \<Rightarrow> s)
           | None \<Rightarrow> Inr SNull)"

text \<open>
  \<^verbatim>\<open>if (valuesInNewBucket) valuesToTransfer = valuesToTransfer.concat(valuesInNewBucket);\<close>
  An array is truthy (also the empty one); \<open>.concat\<close> on \<open>undefined\<close> or \<open>null\<close> is a
  TypeError, and so is the assignment into a column that is absent. The new bucket is
  assigned first, the current one is set to \<open>null\<close> after it.
\<close>

definition transferBucket :: "jsval \<Rightarrow> jsval \<Rightarrow> jsval \<Rightarrow> buckets \<Rightarrow> error + buckets" where
  "transferBucket columnKey currentBucketKey newBucketKey b =
     (if isEmptyString columnKey \<or> isEmptyString currentBucketKey \<or> isEmptyString newBucketKey
      then Inl (Thrown ''columnKey, bucketKey, and newBucketKey must have valid values.'')
      else
        andThen (getValue columnKey currentBucketKey b) (\<lambda>valuesToTransfer.
        andThen (getValue columnKey newBucketKey b) (\<lambda>valuesInNewBucket.
        andThen (case valuesInNewBucket of
                   SArr ys \<Rightarrow>
                     (case valuesToTransfer of
                        SArr xs \<Rightarrow> Inr (SArr (xs @ ys))
                      | _ \<Rightarrow> Inl TypeError)
                 | _ \<Rightarrow> Inr valuesToTransfer) (\<lambda>valuesToTransfer'.
          let currentBucketHash = hashCode currentBucketKey;
              newBucketHash = hashCode newBucketKey
          in case b (toString columnKey) of
               None \<Rightarrow> Inl TypeError
             | Some col \<Rightarrow>
                 Inr (b(toString columnKey \<mapsto>
                        (col(newBucketHash \<mapsto> valuesToTransfer'))(currentBucketHash \<mapsto> SNull)))))))"

text \<open>
  An index in which every bucket property holds a list: what \<open>clear\<close> followed by
  \<open>addValue\<close> calls builds.
\<close>

definition onlyLists :: "buckets \<Rightarrow> bool" where
  "onlyLists b \<longleftrightarrow> (\<forall>k col h s. b k = Some col \<longrightarrow> col h = Some s \<longrightarrow> (\<exists>xs. s = SArr xs))"

text \<open>The indices of the examples, as \<open>addValue\<close> builds them from the empty index.\<close>

definition collidingIndex :: buckets where
  "collidingIndex = [''1'' \<mapsto> [2112 \<mapsto> SArr [Num 4, Num 5]]]"

definition linkedIndex :: buckets where
  "linkedIndex = [''1'' \<mapsto> [65 \<mapsto> SArr [Num 4], 66 \<mapsto> SArr [Num 5]]]"

definition singleIndex :: buckets where
  "singleIndex = [''1'' \<mapsto> [120 \<mapsto> SArr [Num 4]]]"

subsection \<open>\<open>isReadOnly\<close>, \<open>revertEdit\<close> and the edit trigger\<close>

text \<open>
  Modelled from the spec: the globals \<open>ColumnNames\<close> and \<open>AdStatus\<close> of the spreadsheet
  script, whose declarations are not among the sources. \<open>ColumnNames\<close> maps each column
  name of \<open>CONFIG.sheets.main.columns\<close> to itself (the identity map that
  \<open>createIdentityMap\<close> builds); \<open>AdStatus.disabled\<close> is the status \<open>disabled\<close> that makes
  a status field and the replacement entity's fields read-only.
\<close>

definition ColumnNames_staStatus :: string where
  "ColumnNames_staStatus = ''staStatus''"

definition ColumnNames_etaStatus :: string where
  "ColumnNames_etaStatus = ''etaStatus''"

definition ColumnNames_etaId :: string where
  "ColumnNames_etaId = ''etaId''"

definition AdStatus_disabled :: string where
  "AdStatus_disabled = ''disabled''"

text \<open>
  A sheet configuration: \<open>readOnlyColumns\<close> (it may be missing), \<open>columns[name].index\<close>,
  \<open>columns._order\<close> and \<open>firstContentRow\<close>. A sheet: the cell values by (row, column),
  both counted from 1, and the messages shown to the user so far.
\<close>

record sheetConfig =
  readOnlyColumns :: "string list option"
  columnIndex :: "string \<rightharpoonup> nat"
  columnOrder :: "string list"
  firstContentRow :: nat

record sheet =
  cellValues :: "nat \<times> nat \<Rightarrow> jsval"
  toasts :: "string list"

text \<open>
  \<open>isReadOnly(sheet, sheetConfig, rowIndex, columnName, oldValue)\<close>. The column name is
  \<open>undefined\<close> when the edited column is beyond the configured ones. Reading \<open>.index\<close>
  of a column that the configuration lacks is a TypeError.
\<close>

definition isReadOnly :: "sheet \<Rightarrow> sheetConfig option \<Rightarrow> nat \<Rightarrow> jsval \<Rightarrow> jsval \<Rightarrow> error + bool" where
  "isReadOnly sh sheetConfig rowIndex columnName oldValue =
     (case sheetConfig of
        None \<Rightarrow> Inl (Thrown ''Cannot detect read only columns. Please pass a valid sheetconfiguration'')
      | Some cfg \<Rightarrow>
          if (case readOnlyColumns cfg of None \<Rightarrow> False
              | Some names \<Rightarrow> columnName \<in> set (map Str names))
          then Inr True
          else if (columnName = Str ColumnNames_staStatus \<or> columnName = Str ColumnNames_etaStatus)
                  \<and> oldValue = Str AdStatus_disabled
          then Inr True
          else case columnIndex cfg ColumnNames_etaStatus of
                 None \<Rightarrow> Inl TypeError
               | Some etaStatusIndex \<Rightarrow>
                   if cellValues sh (rowIndex, etaStatusIndex + 1) = Str AdStatus_disabled
                   then Inr True
                   else case columnIndex cfg ColumnNames_etaId of
                          None \<Rightarrow> Inl TypeError
                        | Some etaIdIndex \<Rightarrow>
                            if \<not> isEmptyString (cellValues sh (rowIndex, etaIdIndex + 1))
                               \<and> columnName \<noteq> Str ColumnNames_etaStatus
                               \<and> columnName \<noteq> Str ColumnNames_staStatus
                            then Inr True
                            else Inr False)"

text \<open>\<open>showMessage\<close> shows a toast unless the message is empty.\<close>

definition showMessage :: "string \<Rightarrow> sheet \<Rightarrow> sheet" where
  "showMessage msg sh = (if msg \<noteq> [] then sh\<lparr>toasts := toasts sh @ [msg]\<rparr> else sh)"

text \<open>
  \<^verbatim>\<open>if (isEmptyString(oldValue)) {
    showMessage('Failed to revert to old value - previous value not found.');  return; }
  sheet.getRange(rowIndex, colIndex).setValue(oldValue);
  showMessage(columnName + ' is read-only (and may populate automatically).');\<close>
\<close>

definition revertEdit :: "sheet \<Rightarrow> nat \<Rightarrow> nat \<Rightarrow> jsval \<Rightarrow> jsval \<Rightarrow> sheet" where
  "revertEdit sh rowIndex colIndex columnName oldValue =
     (if isEmptyString oldValue
      then showMessage ''Failed to revert to old value - previous value not found.'' sh
      else showMessage (toString columnName @ '' is read-only (and may populate automatically).'')
             (sh\<lparr>cellValues := (cellValues sh)((rowIndex, colIndex) := oldValue)\<rparr>))"

text \<open>
  The edit event: the edited cell and the value it held before (\<open>undefined\<close> when the
  trigger supplies none). The sheet already holds the new value when the trigger runs.
\<close>

record editEvent =
  editRow :: nat
  editColumn :: nat
  oldValue :: jsval

text \<open>\<open>sheetConfig.columns._order[colIndex - 1]\<close>\<close>

definition columnNameAt :: "sheetConfig \<Rightarrow> nat \<Rightarrow> jsval" where
  "columnNameAt cfg colIndex =
     (if 0 < colIndex \<and> colIndex - 1 < length (columnOrder cfg)
      then Str (columnOrder cfg ! (colIndex - 1)) else Undefined)"

text \<open>
  \<open>onCellEdit\<close> up to the read-only test. What it does with an edit that is not read-only
  (the staged mark, the linked cells, the mismatch highlight) is the parameter
  \<open>accepted\<close>.
\<close>

definition onCellEdit ::
  "(sheet \<Rightarrow> error + sheet) \<Rightarrow> sheetConfig \<Rightarrow> editEvent \<Rightarrow> sheet \<Rightarrow> error + sheet" where
  "onCellEdit accepted cfg event sh =
     (let rowIndex = editRow event
      in if rowIndex < firstContentRow cfg then Inr sh
         else
           let colIndex = editColumn event;
               columnName = columnNameAt cfg colIndex
           in andThen (isReadOnly sh (Some cfg) rowIndex columnName (oldValue event))
                (\<lambda>readOnly.
                   if readOnly
                   then Inr (revertEdit sh rowIndex colIndex columnName (oldValue event))
                   else accepted sh))"

text \<open>
  The sheet of the examples: four columns, content from row 4 on; row 4 belongs to a
  created replacement entity and its \<open>headline1\<close> cell has just been filled in.
\<close>

definition exampleConfig :: sheetConfig where
  "exampleConfig =
     \<lparr>readOnlyColumns = Some [''etaId''],
      columnIndex = [''staStatus'' \<mapsto> 0, ''headline1'' \<mapsto> 1, ''etaStatus'' \<mapsto> 2, ''etaId'' \<mapsto> 3],
      columnOrder = [''staStatus'', ''headline1'', ''etaStatus'', ''etaId''],
      firstContentRow = 4\<rparr>"

definition exampleSheet :: sheet where
  "exampleSheet =
     \<lparr>cellValues = (\<lambda>cell. Str [])
        ((4, 1) := Str ''enabled'', (4, 2) := Str ''New headline'',
         (4, 3) := Str ''paused'', (4, 4) := Num 123),
      toasts = []\<rparr>"

subsection \<open>\<open>SpreadsheetRow\<close> of the spreadsheet, \<open>getDomain\<close>, \<open>highlightMismatchFields\<close>\<close>

text \<open>
  The spreadsheet's \<open>SpreadsheetRow\<close>: \<open>values_\<close> (the row's cell values),
  \<open>columnNamesToIndices_[name].index\<close>, and of the row's range the backgrounds of its
  cells, by 0-based column index (\<open>None\<close> is a cleared background).
\<close>

record sheetRow =
  cells :: "jsval list"
  nameToIndex :: "string \<rightharpoonup> nat"
  cellBackgrounds :: "nat \<Rightarrow> string option"

definition sheet_getColumnIndex :: "string \<Rightarrow> sheetRow \<Rightarrow> error + nat" where
  "sheet_getColumnIndex columnName row =
     (case nameToIndex row columnName of
        None \<Rightarrow> Inl (Thrown (''Column `'' @ columnName @ ''` does not exist.''))
      | Some i \<Rightarrow> Inr i)"

text \<open>
  \<open>getArray\<close>. \<open>JSON.parse\<close> is the engine's; the model takes it as the parameter
  \<open>parse\<close>, \<open>None\<close> where it raises. A cell beyond the row's values reads \<open>undefined\<close>.
  \<^verbatim>\<open>if (isEmptyString(this.values_[columnIndex])) return [];
  try { values = JSON.parse(this.values_[columnIndex]); }
  catch (err) {
    try { values = JSON.parse('"' + this.values_[columnIndex] + '"'); }
    catch (err) { throw 'Incorrect JSON value stored in `' + columnName + '` column.'; } }
  if (!Array.isArray(values) && (typeof values !== 'string')) throw 'Incorrect array value ...';
  if (!Array.isArray(values)) values = [values];\<close>
\<close>

definition getArray :: "(string \<Rightarrow> json option) \<Rightarrow> string \<Rightarrow> sheetRow \<Rightarrow> error + json list" where
  "getArray parse columnName row =
     andThen (sheet_getColumnIndex columnName row) (\<lambda>columnIndex.
       let v = (if columnIndex < length (cells row) then cells row ! columnIndex else Undefined)
       in if isEmptyString v then Inr []
          else
            andThen (case parse (toString v) of
                       Some parsed \<Rightarrow> Inr parsed
                     | None \<Rightarrow>
                         (case parse ([CHR 0x22] @ toString v @ [CHR 0x22]) of
                            Some parsed \<Rightarrow> Inr parsed
                          | None \<Rightarrow> Inl (Thrown (''Incorrect JSON value stored in `''
                                                  @ columnName @ ''` column.''))))
              (\<lambda>parsed. case parsed of
                 JArr xs \<Rightarrow> Inr xs
               | JStr s \<Rightarrow> Inr [JStr s]
               | _ \<Rightarrow> Inl (Thrown (''Incorrect array value stored in `''
                                     @ columnName @ ''` column.''))))"

text \<open>The spreadsheet's \<open>isEmptyString\<close> on a parsed value: \<open>!str\<close>, or a blank string.\<close>

fun isEmptyStringJson :: "json \<Rightarrow> bool" where
  "isEmptyStringJson JUndefined = True"
| "isEmptyStringJson JNull = True"
| "isEmptyStringJson (JBool b) = (\<not> b)"
| "isEmptyStringJson (JNum n) = (n = 0)"
| "isEmptyStringJson (JStr s) = (s = [] \<or> trim s = [])"
| "isEmptyStringJson (JArr xs) = False"
| "isEmptyStringJson (JObj kvs) = False"

text \<open>\<open>if (s.indexOf(prefix) === 0) s = s.substr(prefix.length);\<close>\<close>

definition stripPrefix :: "string \<Rightarrow> string \<Rightarrow> string" where
  "stripPrefix prefix s = (if take (length prefix) s = prefix then drop (length prefix) s else s)"

definition getDomain :: "json \<Rightarrow> error + string" where
  "getDomain url =
     (if isEmptyStringJson url \<or> typeOf url \<noteq> ''string''
      then Inl (Thrown ''Invalid `url` parameter.'')
      else
        let strippedUrl = stripPrefix ''www.'' (stripPrefix ''https://'' (stripPrefix ''http://''
                            (case url of JStr s \<Rightarrow> s | _ \<Rightarrow> [])));
            domain = takeWhile (\<lambda>c. c \<noteq> CHR ''/'') strippedUrl
        in Inr (if \<not> isEmptyString (Str domain) then toLowerCase domain else domain))"

text \<open>\<open>urls[0]\<close>: \<open>undefined\<close> on the empty array.\<close>

definition firstElement :: "json list \<Rightarrow> json" where
  "firstElement urls = (case urls of [] \<Rightarrow> JUndefined | url # _ \<Rightarrow> url)"

text \<open>
  The callback of \<open>columnNames.every\<close>, with the variables \<open>init\<close> and \<open>previousDomain\<close> it
  shares between the calls; \<open>every\<close> stops at the first \<open>false\<close>.
  \<^verbatim>\<open>var urls = spreadsheetRow.getArray(columnName);
  var domain = getDomain(urls[0]);
  if (init) init = false;
  else if (previousDomain !== domain) return false;
  previousDomain = domain;  return true;\<close>
\<close>

fun everyMatch ::
  "(string \<Rightarrow> json option) \<Rightarrow> sheetRow \<Rightarrow> string list \<Rightarrow> bool \<Rightarrow> string option \<Rightarrow> error + bool" where
  "everyMatch parse row [] init previousDomain = Inr True"
| "everyMatch parse row (columnName # rest) init previousDomain =
     andThen (getArray parse columnName row) (\<lambda>urls.
     andThen (getDomain (firstElement urls)) (\<lambda>domain.
       if init then everyMatch parse row rest False (Some domain)
       else if previousDomain \<noteq> Some domain then Inr False
       else everyMatch parse row rest False (Some domain)))"

text \<open>
  \<open>columnNames.forEach\<close>: \<open>spreadsheetRow.getCell(columnName).setBackground(highlightColor)\<close>.
  \<open>getCell\<close> raises on a column that the row lacks; the cells painted before it stay
  painted. So that what a raise leaves behind can be stated, a raise is returned with
  the row as it is at that moment.
\<close>

fun setBackgrounds ::
  "string option \<Rightarrow> string list \<Rightarrow> sheetRow \<Rightarrow> (error \<times> sheetRow) + sheetRow" where
  "setBackgrounds highlightColor [] row = Inr row"
| "setBackgrounds highlightColor (columnName # rest) row =
     (case sheet_getColumnIndex columnName row of
        Inl e \<Rightarrow> Inl (e, row)
      | Inr index \<Rightarrow>
          setBackgrounds highlightColor rest
            (row\<lparr>cellBackgrounds := (cellBackgrounds row)(index := highlightColor)\<rparr>))"

text \<open>
  \<open>highlightMismatchFields\<close>: the comparison (\<open>every\<close>) runs first and only reads the
  row, so a raise in it leaves the row as it was passed; the painting (\<open>forEach\<close>) runs
  after it.
\<close>

definition highlightMismatchFields ::
  "(string \<Rightarrow> json option) \<Rightarrow> sheetRow \<Rightarrow> string list \<Rightarrow> string
     \<Rightarrow> (error \<times> sheetRow) + sheetRow" where
  "highlightMismatchFields parse spreadsheetRow columnNames color =
     (case everyMatch parse spreadsheetRow columnNames True None of
        Inl e \<Rightarrow> Inl (e, spreadsheetRow)
      | Inr allMatch \<Rightarrow>
          setBackgrounds (if \<not> allMatch then Some color else None) columnNames spreadsheetRow)"

text \<open>The comparison key of one compared field: the domain of the first element of its list.\<close>

definition domainOf :: "(string \<Rightarrow> json option) \<Rightarrow> sheetRow \<Rightarrow> string \<Rightarrow> error + string" where
  "domainOf parse row columnName =
     andThen (getArray parse columnName row) (\<lambda>urls. getDomain (firstElement urls))"

text \<open>
  What \<open>JSON.parse\<close> does on the three texts that the examples give it: a bare URL is
  not JSON, the same URL in double quotes is a string.
\<close>

definition exampleParse :: "string \<Rightarrow> json option" where
  "exampleParse s =
     (if s = [CHR 0x22] @ ''www.Example.com/shoes'' @ [CHR 0x22] then Some (JStr ''www.Example.com/shoes'')
      else if s = [CHR 0x22] @ ''http://example.com'' @ [CHR 0x22] then Some (JStr ''http://example.com'')
      else if s = [CHR 0x22] @ ''http://other.org/a'' @ [CHR 0x22] then Some (JStr ''http://other.org/a'')
      else None)"

definition exampleUrlRow :: "jsval list \<Rightarrow> sheetRow" where
  "exampleUrlRow vs =
     \<lparr>cells = vs,
      nameToIndex = [''displayUrl'' \<mapsto> 0, ''finalUrl'' \<mapsto> 1, ''mobileFinalUrl'' \<mapsto> 2],
      cellBackgrounds = (\<lambda>i. Some ''#00FF00'')\<rparr>"

definition emptyUrlRow :: sheetRow where
  "emptyUrlRow = exampleUrlRow [Str ''www.Example.com/shoes'', Str []]"

definition matchingUrlRow :: sheetRow where
  "matchingUrlRow = exampleUrlRow [Str ''www.Example.com/shoes'', Str ''http://example.com'']"

definition mismatchUrlRow :: sheetRow where
  "mismatchUrlRow = exampleUrlRow [Str ''www.Example.com/shoes'', Str ''http://other.org/a'']"

definition mismatchThenEmptyRow :: sheetRow where
  "mismatchThenEmptyRow =
     exampleUrlRow [Str ''www.Example.com/shoes'', Str ''http://other.org/a'', Str []]"

section \<open>Script side: \<open>src/utils.js\<close>, \<open>src/sync_spreadsheet_helpers.js\<close>\<close>

subsection \<open>\<open>isEmptyString\<close> of the script\<close>

text \<open>
  The script's own \<open>isEmptyString\<close> differs from the spreadsheet's: it tests
  \<open>str == null\<close> first, so the number \<open>0\<close> is not empty here.
\<close>

fun script_isEmptyString :: "jsval \<Rightarrow> bool" where
  "script_isEmptyString Undefined = True"
| "script_isEmptyString Null = True"
| "script_isEmptyString (Num n) = False"
| "script_isEmptyString (Str s) = (trim s = [])"

subsection \<open>\<open>SpreadsheetRow\<close> of the script\<close>

text \<open>
  The fields of a \<open>SpreadsheetRow\<close>: \<open>values_\<close>, \<open>columnNamesToIndices_\<close> (a column name
  to its 0-based index), \<open>hasErrors_\<close>, and the row's range in the sheet, of which the
  background and the cell values are kept. An array index that was never written reads
  \<open>undefined\<close>. \<open>logger\<close> is what \<open>print\<close> has sent to \<open>Logger.log\<close>, which it does when
  \<open>CONFIG.debug\<close> is set.
\<close>

record spreadsheetRow =
  rowValues :: "nat \<Rightarrow> jsval"
  columnNamesToIndices :: "string \<rightharpoonup> nat"
  hasErrorsFlag :: bool
  rangeBackground :: "string option"
  rangeCells :: "nat \<Rightarrow> jsval"
  configDebug :: bool
  logger :: "string list"

text \<open>The \<open>messages\<close> argument of \<open>markAsError\<close>: a string, an array of strings, or nothing.\<close>

datatype messages = NoMessages | OneMessage string | ManyMessages "string list"

fun join :: "string \<Rightarrow> string list \<Rightarrow> string" where
  "join sep [] = []"
| "join sep [x] = x"
| "join sep (x # y # ys) = x @ sep @ join sep (y # ys)"

definition getColumnIndex :: "string \<Rightarrow> spreadsheetRow \<Rightarrow> error + nat" where
  "getColumnIndex columnName row =
     (case columnNamesToIndices row columnName of
        None \<Rightarrow> Inl (Thrown (''Column \"'' @ columnName @ ''\" does not exist.''))
      | Some i \<Rightarrow> Inr i)"

definition setCell :: "string \<Rightarrow> jsval \<Rightarrow> spreadsheetRow \<Rightarrow> error + spreadsheetRow" where
  "setCell columnName v row =
     andThen (getColumnIndex columnName row) (\<lambda>columnIndex.
       Inr (row\<lparr>rangeCells := (rangeCells row)(columnIndex := v),
                rowValues := (rowValues row)(columnIndex := v)\<rparr>))"

definition getCellValue :: "string \<Rightarrow> spreadsheetRow \<Rightarrow> error + jsval" where
  "getCellValue columnName row =
     andThen (getColumnIndex columnName row) (\<lambda>columnIndex. Inr (rowValues row columnIndex))"

definition hasErrors :: "spreadsheetRow \<Rightarrow> bool" where
  "hasErrors row = hasErrorsFlag row"

definition print :: "string \<Rightarrow> spreadsheetRow \<Rightarrow> spreadsheetRow" where
  "print msg row = (if configDebug row then row\<lparr>logger := logger row @ [msg]\<rparr> else row)"

text \<open>
  \<^verbatim>\<open>if (isEmpty(messages) || isEmptyString(messages)) throw ...;
  this.range_.setBackground('red');
  if (Array.isArray(messages)) messages = messages.join('\n- ');
  messages = '- ' + messages + '\n';
  this.set('errorMessage', this.get('errorMessage') + messages);
  print(messages);  this.hasErrors_ = true;\<close>
\<close>

definition markAsError :: "messages \<Rightarrow> spreadsheetRow \<Rightarrow> error + spreadsheetRow" where
  "markAsError msgs row =
     (if msgs = NoMessages \<or> (case msgs of OneMessage s \<Rightarrow> trim s = [] | _ \<Rightarrow> False)
      then Inl (Thrown (''Empty `messages` parameter provided. A non-empty message must be ''
                        @ ''provided.''))
      else
        let row1 = row\<lparr>rangeBackground := Some ''red''\<rparr>;
            joined = (case msgs of ManyMessages ms \<Rightarrow> join [CHR 0x0A, CHR ''-'', CHR '' ''] ms
                                 | OneMessage s \<Rightarrow> s
                                 | NoMessages \<Rightarrow> []);
            line = ''- '' @ joined @ [CHR 0x0A]
        in andThen (getCellValue ''errorMessage'' row1) (\<lambda>old.
           andThen (setCell ''errorMessage'' (Str (toString old @ line)) row1) (\<lambda>row2.
             Inr ((print line row2)\<lparr>hasErrorsFlag := True\<rparr>))))"

text \<open>
  \<^verbatim>\<open>this.range_.setBackground(null);  this.set('errorMessage', '');\<close>
\<close>

definition markAsResolved :: "spreadsheetRow \<Rightarrow> error + spreadsheetRow" where
  "markAsResolved row =
     setCell ''errorMessage'' (Str []) (row\<lparr>rangeBackground := None\<rparr>)"

text \<open>Any sequence of the three mutating methods, run in order.\<close>

datatype rowCall = MarkAsError messages | MarkAsResolved | SetCell string jsval

fun applyCall :: "rowCall \<Rightarrow> spreadsheetRow \<Rightarrow> error + spreadsheetRow" where
  "applyCall (MarkAsError msgs) row = markAsError msgs row"
| "applyCall MarkAsResolved row = markAsResolved row"
| "applyCall (SetCell columnName v) row = setCell columnName v row"

fun rowCalls :: "rowCall list \<Rightarrow> spreadsheetRow \<Rightarrow> error + spreadsheetRow" where
  "rowCalls [] row = Inr row"
| "rowCalls (c # cs) row = andThen (applyCall c row) (rowCalls cs)"

text \<open>The row of the examples: three columns, nothing written yet.\<close>

definition exampleRow :: spreadsheetRow where
  "exampleRow =
     \<lparr>rowValues = (\<lambda>i. Str []),
      columnNamesToIndices = [''staStatus'' \<mapsto> 0, ''etaStatus'' \<mapsto> 1, ''errorMessage'' \<mapsto> 2],
      hasErrorsFlag = False, rangeBackground = None, rangeCells = (\<lambda>i. Str []),
      configDebug = False, logger = []\<rparr>"

subsection \<open>\<open>Ad.prototype.diffLabels_\<close>\<close>

text \<open>
  \<open>diffLabels_(newLabelNames)\<close> compares \<open>newLabelNames\<close> with
  \<open>currentLabelNames = this.getLabels()\<close>, an array of label names; the model takes that
  array as its first argument. Each \<open>forEach\<close> is a loop over the list that carries the
  \<open>diff\<close> object.
\<close>

record labelDiff =
  add :: "string list"
  remove :: "string list"
  hasDiff :: bool

text \<open>
  \<^verbatim>\<open>newLabelName = newLabelName.trim();
  if (currentLabelNames.indexOf(newLabelName) === -1) {
    diff.add.push(newLabelName);  diff.hasDiff = true; }\<close>
\<close>

fun addLoop :: "string list \<Rightarrow> string list \<Rightarrow> labelDiff \<Rightarrow> labelDiff" where
  "addLoop currentLabelNames [] diff = diff"
| "addLoop currentLabelNames (newLabelName # rest) diff =
     (let trimmed = trim newLabelName
      in addLoop currentLabelNames rest
           (if trimmed \<notin> set currentLabelNames
            then diff\<lparr>add := add diff @ [trimmed], hasDiff := True\<rparr>
            else diff))"

text \<open>
  \<^verbatim>\<open>currentLabelName = currentLabelName.trim();
  if (newLabelNames.indexOf(currentLabelName) === -1) {
    diff.remove.push(currentLabelName);  diff.hasDiff = true; }\<close>
\<close>

fun removeLoop :: "string list \<Rightarrow> string list \<Rightarrow> labelDiff \<Rightarrow> labelDiff" where
  "removeLoop newLabelNames [] diff = diff"
| "removeLoop newLabelNames (currentLabelName # rest) diff =
     (let trimmed = trim currentLabelName
      in removeLoop newLabelNames rest
           (if trimmed \<notin> set newLabelNames
            then diff\<lparr>remove := remove diff @ [trimmed], hasDiff := True\<rparr>
            else diff))"

definition diffLabels :: "string list \<Rightarrow> string list \<Rightarrow> labelDiff" where
  "diffLabels currentLabelNames newLabelNames =
     removeLoop newLabelNames currentLabelNames
       (addLoop currentLabelNames newLabelNames \<lparr>add = [], remove = [], hasDiff = False\<rparr>)"

text \<open>
  The specification's "applying the add/remove lists to current": the labels of
  \<open>current\<close> that are not to be removed, followed by the labels to add.
\<close>

definition applyDiff :: "string list \<Rightarrow> labelDiff \<Rightarrow> string list" where
  "applyDiff current d = filter (\<lambda>l. l \<notin> set (remove d)) current @ add d"

subsection \<open>\<open>Ad.prototype.getStatus\<close>, \<open>getAd\<close>, \<open>syncStatus\<close>\<close>

text \<open>
  The platform's ad object (\<open>AdWordsApp.Ad\<close>) is an external collaborator. Of it the
  model keeps the identifier (\<open>getId()\<close>, negative in preview mode), the status that
  \<open>isEnabled()\<close> and \<open>isPaused()\<close> report, and whether its \<open>enable()\<close> and \<open>pause()\<close>
  calls fail (they raise then, and change nothing). A call that succeeds sets the status
  and is one remote mutation, recorded in \<open>remoteCalls\<close>.
\<close>

datatype platformStatus = PlatformEnabled | PlatformPaused | PlatformOther

record platformAd =
  adId :: int
  adStatus :: platformStatus
  adRejects :: bool

datatype remoteCall = Enable | Pause

text \<open>
  An \<open>Ad\<close> of the script: the fields of \<open>this.row\<close> that the status sync reads,
  \<open>this.ad\<close> (\<open>None\<close> is \<open>null\<close>), and the platform as the sync sees it: the ad that the
  selector \<open>AdWordsApp.ads().withIds([[adGroupId, id]])\<close> yields, if any, and the
  mutations made so far.
\<close>

record adState =
  rowStatus :: jsval
  rowAdGroupId :: jsval
  rowId :: jsval
  adObject :: "platformAd option"
  selectedAd :: "platformAd option"
  remoteCalls :: "remoteCall list"

definition hasAdWordsAppAd :: "adState \<Rightarrow> bool" where
  "hasAdWordsAppAd st \<longleftrightarrow> adObject st \<noteq> None"

definition getStatus :: "adState \<Rightarrow> error + jsval" where
  "getStatus st =
     (case adObject st of
        Some a \<Rightarrow>
          Inr (Str (if adId a > 0
                    then (if adStatus a = PlatformEnabled then ''enabled''
                          else if adStatus a = PlatformPaused then ''paused''
                          else [])
                    else []))
      | None \<Rightarrow>
          if \<not> script_isEmptyString (rowStatus st) then Inr (rowStatus st)
          else Inl (Thrown ''Invalid ad object.''))"

definition getAd :: "adState \<Rightarrow> error + (bool \<times> adState)" where
  "getAd st =
     (if script_isEmptyString (rowAdGroupId st) \<or> script_isEmptyString (rowId st)
      then Inl (Thrown ''Invalid Ad instance.'')
      else case selectedAd st of
             Some a \<Rightarrow> Inr (True, st\<lparr>adObject := Some a\<rparr>)
           | None \<Rightarrow> Inr (False, st))"

text \<open>\<open>this.ad.enable()\<close> and \<open>this.ad.pause()\<close> inside the \<open>try\<close>: a raise is caught and answers \<open>false\<close>.\<close>

definition remoteMutation :: "remoteCall \<Rightarrow> platformAd \<Rightarrow> adState \<Rightarrow> bool \<times> adState" where
  "remoteMutation call a st =
     (if adRejects a then (False, st)
      else (True, st\<lparr>adObject :=
                        Some (a\<lparr>adStatus := (case call of Enable \<Rightarrow> PlatformEnabled
                                                       | Pause \<Rightarrow> PlatformPaused)\<rparr>),
                      remoteCalls := remoteCalls st @ [call]\<rparr>))"

text \<open>
  The \<open>try\<close> block of \<open>syncStatus\<close>:
  \<^verbatim>\<open>if (this.ad.getId() < 0) return true;
  switch (normalizedStatus) {
    case 'enabled': this.ad.enable(); return true;
    case 'paused':  this.ad.pause();  return true;
    case '':        this.ad.pause();  return true;
    default:        return false; }\<close>
\<close>

definition switchStatus :: "string \<Rightarrow> adState \<Rightarrow> bool \<times> adState" where
  "switchStatus normalizedStatus st =
     (case adObject st of
        None \<Rightarrow> (False, st)
      | Some a \<Rightarrow>
          if adId a < 0 then (True, st)
          else if normalizedStatus = ''enabled'' then remoteMutation Enable a st
          else if normalizedStatus = ''paused'' then remoteMutation Pause a st
          else if normalizedStatus = [] then remoteMutation Pause a st
          else (False, st))"

text \<open>
  \<^verbatim>\<open>if (isEmptyString(status)) throw 'Incorrect status parameter.';
  var normalizedStatus = status.trim().toLowerCase();
  if (this.getStatus() === normalizedStatus) return true;
  else if (!this.hasAdWordsAppAd()) { var success = this.getAd(); if (!success) return false; }
  try { ... } catch (err) { return false; }\<close>
\<close>

definition syncStatus :: "string \<Rightarrow> adState \<Rightarrow> error + (bool \<times> adState)" where
  "syncStatus status st =
     (if script_isEmptyString (Str status) then Inl (Thrown ''Incorrect status parameter.'')
      else
        let normalizedStatus = toLowerCase (trim status)
        in andThen (getStatus st) (\<lambda>current.
             if current = Str normalizedStatus then Inr (True, st)
             else andThen (if \<not> hasAdWordsAppAd st then getAd st else Inr (True, st))
                    (\<lambda>found. if \<not> fst found then Inr (False, snd found)
                              else Inr (switchStatus normalizedStatus (snd found)))))"

text \<open>
  The \<open>Ad\<close> stands for the platform ad \<open>a\<close>: it holds it already, or it is a report row
  with a status and identifiers for which the selector yields \<open>a\<close>.
\<close>

definition resolvesTo :: "adState \<Rightarrow> platformAd \<Rightarrow> bool" where
  "resolvesTo st a \<longleftrightarrow>
     adObject st = Some a
     \<or> (adObject st = None \<and> selectedAd st = Some a
        \<and> \<not> script_isEmptyString (rowStatus st)
        \<and> \<not> script_isEmptyString (rowAdGroupId st) \<and> \<not> script_isEmptyString (rowId st))"

text \<open>The ads of the examples: a paused ad, and an ad built in preview mode.\<close>

definition pausedAd :: adState where
  "pausedAd = \<lparr>rowStatus = Undefined, rowAdGroupId = Undefined, rowId = Undefined,
       adObject = Some \<lparr>adId = 7, adStatus = PlatformPaused, adRejects = False\<rparr>,
       selectedAd = None, remoteCalls = []\<rparr>"

definition previewAd :: adState where
  "previewAd = \<lparr>rowStatus = Undefined, rowAdGroupId = Undefined, rowId = Undefined,
       adObject = Some \<lparr>adId = - 1, adStatus = PlatformPaused, adRejects = False\<rparr>,
       selectedAd = None, remoteCalls = []\<rparr>"

subsection \<open>\<open>isObject\<close>, \<open>isValidParamsObject\<close>\<close>

fun script_isEmpty :: "json \<Rightarrow> bool" where
  "script_isEmpty JUndefined = True"
| "script_isEmpty JNull = True"
| "script_isEmpty _ = False"

text \<open>The script's \<open>isEmptyString\<close> on a parsed value: \<open>str == null\<close>, or a blank string.\<close>

fun script_isEmptyStringJson :: "json \<Rightarrow> bool" where
  "script_isEmptyStringJson JUndefined = True"
| "script_isEmptyStringJson JNull = True"
| "script_isEmptyStringJson (JStr s) = (trim s = [])"
| "script_isEmptyStringJson _ = False"

text \<open>
  \<open>isObject\<close> asks for the class \<open>[object Object]\<close>, a constructor that is not a foreign
  one, and own enumerable properties only: of the parsed values exactly the objects
  pass (an array is \<open>[object Array]\<close>, \<open>null\<close> and the primitives fail the first test).
\<close>

fun isObject :: "json \<Rightarrow> bool" where
  "isObject (JObj kvs) = True"
| "isObject _ = False"

text \<open>
  \<open>obj.hasOwnProperty(key)\<close> looks the method up on the object itself first: an own
  property of that name holds a parsed value, not a function, and the call is a
  TypeError.
\<close>

fun shadowsHasOwnProperty :: "json \<Rightarrow> bool" where
  "shadowsHasOwnProperty (JObj kvs) = (''hasOwnProperty'' \<in> set (map fst kvs))"
| "shadowsHasOwnProperty _ = False"

record paramsResult =
  success :: bool
  message :: string

text \<open>
  \<^verbatim>\<open>for (var key in obj) {
    if (obj.hasOwnProperty(key)) {
      var value = obj[key];
      if (valueTypes.indexOf(typeof value) === -1) {
        result.message = 'key `' + key + '` has an invalid type `' + typeof value + '`';
        return result; } }
    keyCount++; }\<close>
  The loop answers the message of the early return, or the final \<open>keyCount\<close>.
\<close>

fun checkKeys :: "bool \<Rightarrow> string list \<Rightarrow> (string \<times> json) list \<Rightarrow> nat \<Rightarrow> error + (string + nat)" where
  "checkKeys shadowed valueTypes [] keyCount = Inr (Inr keyCount)"
| "checkKeys shadowed valueTypes ((key, v) # rest) keyCount =
     (if shadowed then Inl TypeError
      else if typeOf v \<notin> set valueTypes
      then Inr (Inl (''key `'' @ key @ ''` has an invalid type `'' @ typeOf v @ ''`''))
      else checkKeys shadowed valueTypes rest (keyCount + 1))"

text \<open>\<open>valueTypes\<close> is \<open>None\<close> when the caller passes something that is not an array.\<close>

definition isValidParamsObject :: "json \<Rightarrow> string list option \<Rightarrow> bool \<Rightarrow> error + paramsResult" where
  "isValidParamsObject obj valueTypes emptyIsInvalid =
     (if \<not> emptyIsInvalid \<and> (script_isEmpty obj \<or> script_isEmptyStringJson obj)
      then Inr \<lparr>success = True, message = []\<rparr>
      else if obj = JNull then Inr \<lparr>success = False, message = ''params is null''\<rparr>
      else if obj = JUndefined then Inr \<lparr>success = False, message = ''params is undefined''\<rparr>
      else if \<not> isObject obj then Inr \<lparr>success = False, message = ''params is not an object''\<rparr>
      else case valueTypes of
             None \<Rightarrow> Inr \<lparr>success = False, message = ''valueTypes is not a valid array''\<rparr>
           | Some types \<Rightarrow>
               andThen (checkKeys (shadowsHasOwnProperty obj) types
                          (case obj of JObj kvs \<Rightarrow> kvs | _ \<Rightarrow> []) 0)
                 (\<lambda>looped. case looped of
                    Inl msg \<Rightarrow> Inr \<lparr>success = False, message = msg\<rparr>
                  | Inr keyCount \<Rightarrow>
                      if emptyIsInvalid \<and> keyCount = 0
                      then Inr \<lparr>success = False, message = ''params is empty''\<rparr>
                      else Inr \<lparr>success = True, message = []\<rparr>))"

subsection \<open>\<open>isValidForETACreation\<close>\<close>

text \<open>
  The object that \<open>parseETA\<close> builds from a row. \<open>getString\<close> yields strings and
  \<open>getArray\<close> arrays; the validation also tests the two URL lists for being there, so
  they are optional here.
\<close>

record etaObj =
  campaignId :: int
  adGroupId :: int
  finalURLs :: "json list option"
  headline1 :: string
  headline2 :: string
  description :: string
  path1 :: string
  path2 :: string
  mobileFinalURLs :: "json list option"
  trackingTemplate :: string
  customParameters :: json

definition errFinalUrlMissing :: string where
  "errFinalUrlMissing = ''Failed to create ETA: finalUrl is missing. [Required]''"

definition errFinalUrlSingle :: string where
  "errFinalUrlSingle = ''Failed to create ETA: finalUrl supports only a single URL''"

definition errHeadline1 :: string where
  "errHeadline1 = ''Failed to create ETA: headline1 is missing. [Required]''"

definition errHeadline2 :: string where
  "errHeadline2 = ''Failed to create ETA: headline2 is missing. [Required]''"

definition errDescription :: string where
  "errDescription = ''Failed to create ETA: description is missing. [Required]''"

definition errPath1 :: string where
  "errPath1 = ''Failed to create ETA: path1 is missing. Setting path2 requires path1 to be set''"

definition errMobileSingle :: string where
  "errMobileSingle = ''Failed to create ETA: mobileFinalURL supports only a single URL''"

definition errCustomParameters :: string where
  "errCustomParameters = ''Failed to create ETA: customParameters is not a valid parameters object''"

text \<open>The \<open>returnObject\<close>: \<open>ad\<close> stays \<open>null\<close> here, \<open>errors\<close> collects the messages in order.\<close>

record creationResult =
  createdAd :: "platformAd option"
  errors :: "string list"

definition isValidForETACreation :: "etaObj \<Rightarrow> error + creationResult" where
  "isValidForETACreation etaObj =
     (let e1 = (if (case finalURLs etaObj of None \<Rightarrow> True | Some us \<Rightarrow> length us < 1)
                then [errFinalUrlMissing] else []);
          e2 = (if (case finalURLs etaObj of None \<Rightarrow> False | Some us \<Rightarrow> length us > 1)
                then [errFinalUrlSingle] else []);
          e3 = (if headline1 etaObj = [] then [errHeadline1] else []);
          e4 = (if headline2 etaObj = [] then [errHeadline2] else []);
          e5 = (if description etaObj = [] then [errDescription] else []);
          e6 = (if path2 etaObj \<noteq> [] \<and> path1 etaObj = [] then [errPath1] else []);
          e7 = (if (case mobileFinalURLs etaObj of None \<Rightarrow> False | Some us \<Rightarrow> length us > 1)
                then [errMobileSingle] else [])
      in andThen (isValidParamsObject (customParameters etaObj) (Some [''string'']) False)
           (\<lambda>checked.
              Inr \<lparr>createdAd = None,
                   errors = e1 @ e2 @ e3 @ e4 @ e5 @ e6 @ e7
                     @ (if \<not> success checked then [errCustomParameters] else [])\<rparr>))"

text \<open>The specification's "flat string-to-string mapping": an object all of whose values are strings.\<close>

fun isFlatStringMapping :: "json \<Rightarrow> bool" where
  "isFlatStringMapping (JObj kvs) = list_all (\<lambda>kv. typeOf (snd kv) = ''string'') kvs"
| "isFlatStringMapping _ = False"

text \<open>The custom parameters that the validation lets pass: none, a blank string, or such a mapping.\<close>

definition paramsAccepted :: "json \<Rightarrow> bool" where
  "paramsAccepted cp \<longleftrightarrow>
     cp = JNull \<or> cp = JUndefined \<or> script_isEmptyStringJson cp \<or> isFlatStringMapping cp"

text \<open>The row object of the examples: every required field set, no optional one.\<close>

definition exampleEta :: etaObj where
  "exampleEta =
     \<lparr>campaignId = 1, adGroupId = 2, finalURLs = Some [JStr ''http://example.com''],
      headline1 = ''Shoes'', headline2 = ''On sale'', description = ''All sizes'',
      path1 = [], path2 = [], mobileFinalURLs = Some [], trackingTemplate = [],
      customParameters = JNull\<rparr>"

definition taggedEta :: etaObj where
  "taggedEta = exampleEta\<lparr>customParameters := JObj [(''season'', JStr ''winter'')]\<rparr>"

definition rejectedEta :: etaObj where
  "rejectedEta = exampleEta\<lparr>headline2 := [], customParameters := JObj [(''count'', JNum 3)]\<rparr>"

section \<open>Bucket index: properties\<close>

lemma toString_1: "showInt 1 = ''1''"
  by (simp add: showInt_def showNat.simps digitChar_def)

lemma hashCode_A: "hashCode (Str ''A'') = 65"
  by (simp add: hashCode_def trim_def isWhiteSpace_def toInt32_def shiftLeft5_def)

lemma hashCode_B: "hashCode (Str ''B'') = 66"
  by (simp add: hashCode_def trim_def isWhiteSpace_def toInt32_def shiftLeft5_def)

lemma hashCode_a: "hashCode (Str ''a'') = 97"
  by (simp add: hashCode_def trim_def isWhiteSpace_def toInt32_def shiftLeft5_def)

lemma hashCode_b: "hashCode (Str ''b'') = 98"
  by (simp add: hashCode_def trim_def isWhiteSpace_def toInt32_def shiftLeft5_def)

lemma hashCode_x: "hashCode (Str ''x'') = 120"
  by (simp add: hashCode_def trim_def isWhiteSpace_def toInt32_def shiftLeft5_def)

lemma hashCode_Aa: "hashCode (Str ''Aa'') = 2112"
  by (simp add: hashCode_def trim_def isWhiteSpace_def toInt32_def shiftLeft5_def)

lemma hashCode_BB: "hashCode (Str ''BB'') = 2112"
  by (simp add: hashCode_def trim_def isWhiteSpace_def toInt32_def shiftLeft5_def)

lemma nonblank_examples:
  "\<not> isEmptyString (Num 1)" "\<not> isEmptyString (Num 6)"
  "\<not> isEmptyString (Str ''A'')" "\<not> isEmptyString (Str ''B'')"
  "\<not> isEmptyString (Str ''a'')" "\<not> isEmptyString (Str ''b'')"
  "\<not> isEmptyString (Str ''Aa'')" "\<not> isEmptyString (Str ''BB'')"
  by (simp_all add: trim_def isWhiteSpace_def)

text \<open>The example indices are what the scripts build with \<open>addValue\<close>.\<close>

lemma collidingIndex_built:
  "andThen (addValue (Num 1) (Str ''Aa'') (Num 4) Map.empty) (addValue (Num 1) (Str ''BB'') (Num 5))
     = Inr collidingIndex"
  by (simp add: addValue_def andThen_def collidingIndex_def toString_1 hashCode_Aa hashCode_BB
        trim_def isWhiteSpace_def)

lemma linkedIndex_built:
  "andThen (addValue (Num 1) (Str ''A'') (Num 4) Map.empty) (addValue (Num 1) (Str ''B'') (Num 5))
     = Inr linkedIndex"
  by (simp add: addValue_def andThen_def linkedIndex_def toString_1 hashCode_A hashCode_B
        trim_def isWhiteSpace_def)

lemma singleIndex_built:
  "addValue (Num 1) (Str ''x'') (Num 4) Map.empty = Inr singleIndex"
  by (simp add: addValue_def singleIndex_def toString_1 hashCode_x trim_def isWhiteSpace_def)

text \<open>
  Claim C1, as amended. If \<open>getValue(C, v1)\<close> returns the list \<open>R1\<close> and
  \<open>getValue(C, v2)\<close> returns the list \<open>R2\<close>, and the two values hash to different bucket
  keys, then \<open>transferBucket(C, v1, v2)\<close> returns normally, after it \<open>getValue(C, v2)\<close>
  returns the concatenation of \<open>R1\<close> and \<open>R2\<close> (nothing is removed from it) and
  \<open>getValue(C, v1)\<close> returns \<open>null\<close>.
\<close>

theorem transferBucket_concatenates:
  assumes "getValue C v1 b = Inr (SArr R1)"
    and "getValue C v2 b = Inr (SArr R2)"
    and "hashCode v1 \<noteq> hashCode v2"
  shows "\<exists>b'. transferBucket C v1 v2 b = Inr b'
            \<and> getValue C v2 b' = Inr (SArr (R1 @ R2))
            \<and> getValue C v1 b' = Inr SNull"
  using assms
  by (auto simp: getValue_def transferBucket_def andThen_def Let_def
           split: if_splits option.splits slot.splits)

theorem transferBucket_concatenates_witness:
  "getValue (Num 1) (Str ''A'') linkedIndex = Inr (SArr [Num 4])
   \<and> getValue (Num 1) (Str ''B'') linkedIndex = Inr (SArr [Num 5])
   \<and> hashCode (Str ''A'') \<noteq> hashCode (Str ''B'')
   \<and> (\<exists>b'. transferBucket (Num 1) (Str ''A'') (Str ''B'') linkedIndex = Inr b'
            \<and> getValue (Num 1) (Str ''B'') b' = Inr (SArr ([Num 4] @ [Num 5]))
            \<and> getValue (Num 1) (Str ''A'') b' = Inr SNull)"
proof -
  have g1: "getValue (Num 1) (Str ''A'') linkedIndex = Inr (SArr [Num 4])"
    by (simp add: getValue_def linkedIndex_def toString_1 hashCode_A trim_def isWhiteSpace_def)
  have g2: "getValue (Num 1) (Str ''B'') linkedIndex = Inr (SArr [Num 5])"
    by (simp add: getValue_def linkedIndex_def toString_1 hashCode_B trim_def isWhiteSpace_def)
  have ne: "hashCode (Str ''A'') \<noteq> hashCode (Str ''B'')"
    by (simp add: hashCode_A hashCode_B)
  from transferBucket_concatenates [OF g1 g2 ne] g1 g2 ne show ?thesis
    by blast
qed

text \<open>
  Claim C1 as stated fails where two distinct values share a hash: \<open>Aa\<close> and \<open>BB\<close> both
  hash to 2112, so both name the one bucket \<open>[4, 5]\<close>, and the transfer leaves \<open>null\<close>
  in it instead of the concatenation.
\<close>

theorem transferBucket_collision_counterexample:
  "Str ''Aa'' \<noteq> Str ''BB''
   \<and> getValue (Num 1) (Str ''Aa'') collidingIndex = Inr (SArr [Num 4, Num 5])
   \<and> getValue (Num 1) (Str ''BB'') collidingIndex = Inr (SArr [Num 4, Num 5])
   \<and> andThen (transferBucket (Num 1) (Str ''Aa'') (Str ''BB'') collidingIndex)
        (getValue (Num 1) (Str ''BB'')) = Inr SNull"
  by (simp add: getValue_def transferBucket_def andThen_def collidingIndex_def toString_1
        hashCode_Aa hashCode_BB trim_def isWhiteSpace_def)

text \<open>
  Claim C7 at the failing input: after \<open>transferBucket(1, 'A', 'B')\<close> the bucket of
  \<open>'A'\<close> is the property \<open>65\<close> holding \<open>null\<close>. \<open>addValue(1, 'A', 6)\<close>, none of whose
  arguments is blank, finds the property present, creates nothing, and \<open>push\<close> on \<open>null\<close>
  raises a TypeError.
\<close>

theorem addValue_after_transfer_raises:
  "\<not> isEmptyString (Num 1) \<and> \<not> isEmptyString (Str ''A'') \<and> \<not> isEmptyString (Num 6)
   \<and> andThen (transferBucket (Num 1) (Str ''A'') (Str ''B'') linkedIndex)
         (getValue (Num 1) (Str ''A'')) = Inr SNull
   \<and> andThen (transferBucket (Num 1) (Str ''A'') (Str ''B'') linkedIndex)
         (addValue (Num 1) (Str ''A'') (Num 6)) = Inl TypeError"
  by (simp add: getValue_def transferBucket_def addValue_def andThen_def linkedIndex_def
        toString_1 hashCode_A hashCode_B trim_def isWhiteSpace_def)

text \<open>
  What \<open>addValue\<close> does on an index whose bucket for the value is absent or holds a
  list: it raises exactly when an argument is blank, and otherwise the bucket holds its
  former members followed by the new one.
\<close>

lemma addValue_raises_iff_blank:
  assumes "\<And>col. b (toString C) = Some col \<Longrightarrow>
             col (hashCode v) \<noteq> Some SNull \<and> col (hashCode v) \<noteq> Some SUndefined"
  shows "(\<exists>e. addValue C v r b = Inl e)
           \<longleftrightarrow> isEmptyString C \<or> isEmptyString v \<or> isEmptyString r"
proof (cases "isEmptyString C \<or> isEmptyString v \<or> isEmptyString r")
  case True
  then show ?thesis by (simp add: addValue_def)
next
  case False
  show ?thesis
  proof (cases "b (toString C)")
    case None
    with False show ?thesis by (simp add: addValue_def)
  next
    case (Some col)
    from assms [OF Some] have "col (hashCode v) = None \<or> (\<exists>xs. col (hashCode v) = Some (SArr xs))"
      by (cases "col (hashCode v)") (auto intro: slot.exhaust)
    with False Some show ?thesis
      by (auto simp: addValue_def)
  qed
qed

lemma addValue_appends:
  assumes "addValue C v r b = Inr b'"
  shows "getValue C v b' =
           Inr (SArr ((case getValue C v b of Inr (SArr xs) \<Rightarrow> xs | _ \<Rightarrow> []) @ [r]))"
proof -
  from assms have nb: "\<not> (isEmptyString C \<or> isEmptyString v \<or> isEmptyString r)"
    by (auto simp: addValue_def)
  show ?thesis
  proof (cases "b (toString C)")
    case None
    with nb assms show ?thesis
      by (auto simp: addValue_def getValue_def)
  next
    case (Some col)
    show ?thesis
    proof (cases "col (hashCode v)")
      case None
      with Some nb assms show ?thesis
        by (auto simp: addValue_def getValue_def)
    next
      case (Some s)
      with \<open>b (toString C) = Some col\<close> nb assms show ?thesis
        by (cases s) (auto simp: addValue_def getValue_def)
    qed
  qed
qed

text \<open>
  On an index in which every bucket holds a list, as \<open>addValue\<close> calls alone build it,
  \<open>addValue\<close> keeps that shape and raises exactly on a blank argument.
\<close>

lemma onlyLists_empty: "onlyLists Map.empty"
  by (simp add: onlyLists_def)

lemma addValue_result:
  assumes "addValue C v r b = Inr b'"
  shows "b' = b(toString C \<mapsto>
             (case b (toString C) of None \<Rightarrow> Map.empty | Some c \<Rightarrow> c)
               (hashCode v \<mapsto>
                  SArr ((case getValue C v b of Inr (SArr xs) \<Rightarrow> xs | _ \<Rightarrow> []) @ [r])))"
proof -
  from assms have nb: "\<not> isEmptyString C" "\<not> isEmptyString v" "\<not> isEmptyString r"
    by (auto simp: addValue_def split: if_splits)
  show ?thesis
  proof (cases "b (toString C)")
    case None
    with nb assms show ?thesis
      by (auto simp: addValue_def getValue_def)
  next
    case (Some col)
    show ?thesis
    proof (cases "col (hashCode v)")
      case None
      with Some nb assms show ?thesis
        by (auto simp: addValue_def getValue_def)
    next
      case (Some s)
      with \<open>b (toString C) = Some col\<close> nb assms show ?thesis
        by (cases s) (auto simp: addValue_def getValue_def)
    qed
  qed
qed

lemma addValue_onlyLists:
  assumes "onlyLists b" and "addValue C v r b = Inr b'"
  shows "onlyLists b'"
  unfolding onlyLists_def
proof (intro allI impI)
  fix k col h s
  assume k: "b' k = Some col" and h: "col h = Some s"
  note shape = addValue_result [OF assms(2)]
  show "\<exists>xs. s = SArr xs"
  proof (cases "k = toString C")
    case False
    with k shape have "b k = Some col"
      by simp
    with assms(1) h show ?thesis
      unfolding onlyLists_def by blast
  next
    case True
    show ?thesis
    proof (cases "h = hashCode v")
      case True
      with \<open>k = toString C\<close> k h shape show ?thesis
        by auto
    next
      case False
      with \<open>k = toString C\<close> k h shape
      have old: "(case b (toString C) of None \<Rightarrow> Map.empty | Some c \<Rightarrow> c) h = Some s"
        by auto
      then obtain c where "b (toString C) = Some c" and "c h = Some s"
        by (cases "b (toString C)") auto
      with assms(1) show ?thesis
        unfolding onlyLists_def by blast
    qed
  qed
qed

lemma addValue_on_lists:
  assumes "onlyLists b"
  shows "(\<exists>e. addValue C v r b = Inl e)
           \<longleftrightarrow> isEmptyString C \<or> isEmptyString v \<or> isEmptyString r"
proof (rule addValue_raises_iff_blank)
  fix col
  assume "b (toString C) = Some col"
  with assms show "col (hashCode v) \<noteq> Some SNull \<and> col (hashCode v) \<noteq> Some SUndefined"
    unfolding onlyLists_def by (metis slot.distinct(3) slot.distinct(5))
qed

text \<open>
  Claim C9, as amended. For a column key \<open>C\<close> that is not the name of a member of
  \<open>Object.prototype\<close>: when no list is stored for \<open>(C, v1)\<close> (\<open>getValue\<close> returns
  \<open>null\<close> or \<open>undefined\<close> for it) and no argument is blank, \<open>transferBucket(C, v1, v2)\<close>
  raises exactly when the column was never populated or the bucket of \<open>v2\<close> holds a list.
  When the column is there and the bucket of \<open>v2\<close> holds no list, it returns normally:
  it stores what \<open>getValue(C, v1)\<close> returned as the bucket of \<open>v2\<close> and \<open>null\<close> as the
  bucket of \<open>v1\<close>.
\<close>

theorem transferBucket_absent_source:
  assumes "\<not> isEmptyString C" and "\<not> isEmptyString v1" and "\<not> isEmptyString v2"
    and "getValue C v1 b = Inr s" and "s = SNull \<or> s = SUndefined"
    and "\<not> inheritedName (toString C)"
  shows "(transferBucket C v1 v2 b = Inl TypeError
            \<longleftrightarrow> b (toString C) = None \<or> (\<exists>ys. getValue C v2 b = Inr (SArr ys)))
       \<and> (b (toString C) = Some col \<and> (\<forall>ys. getValue C v2 b \<noteq> Inr (SArr ys))
            \<longrightarrow> transferBucket C v1 v2 b
                  = Inr (b(toString C \<mapsto> (col(hashCode v2 \<mapsto> s))(hashCode v1 \<mapsto> SNull))))"
  using assms(1-5)
  by (auto simp: getValue_def transferBucket_def andThen_def Let_def
           split: option.splits slot.splits if_splits)

theorem transferBucket_absent_source_witness:
  "\<not> isEmptyString (Num 1) \<and> \<not> isEmptyString (Str ''a'') \<and> \<not> isEmptyString (Str ''b'')
   \<and> \<not> inheritedName (toString (Num 1))
   \<and> getValue (Num 1) (Str ''a'') singleIndex = Inr SUndefined
   \<and> singleIndex (toString (Num 1)) = Some [120 \<mapsto> SArr [Num 4]]
   \<and> getValue (Num 1) (Str ''b'') singleIndex = Inr SUndefined
   \<and> transferBucket (Num 1) (Str ''a'') (Str ''b'') singleIndex \<noteq> Inl TypeError
   \<and> transferBucket (Num 1) (Str ''a'') (Str ''b'') singleIndex
       = Inr (singleIndex(toString (Num 1) \<mapsto>
                ([120 \<mapsto> SArr [Num 4]](hashCode (Str ''b'') \<mapsto> SUndefined))
                   (hashCode (Str ''a'') \<mapsto> SNull)))
   \<and> \<not> isEmptyString (Num 2) \<and> \<not> inheritedName (toString (Num 2))
   \<and> getValue (Num 2) (Str ''a'') singleIndex = Inr SNull
   \<and> singleIndex (toString (Num 2)) = None
   \<and> transferBucket (Num 2) (Str ''a'') (Str ''b'') singleIndex = Inl TypeError"
proof -
  have g1: "getValue (Num 1) (Str ''a'') singleIndex = Inr SUndefined"
    by (simp add: getValue_def singleIndex_def toString_1 hashCode_a trim_def isWhiteSpace_def)
  have g2: "getValue (Num 1) (Str ''b'') singleIndex = Inr SUndefined"
    by (simp add: getValue_def singleIndex_def toString_1 hashCode_b trim_def isWhiteSpace_def)
  have c: "singleIndex (toString (Num 1)) = Some [120 \<mapsto> SArr [Num 4]]"
    by (simp add: singleIndex_def toString_1)
  have s: "SUndefined = SNull \<or> SUndefined = SUndefined"
    by simp
  have n: "\<not> inheritedName (toString (Num 1))"
    by (simp add: inheritedName_def objectPrototypeNames_def toString_1)
  have first: "transferBucket (Num 1) (Str ''a'') (Str ''b'') singleIndex \<noteq> Inl TypeError
   \<and> transferBucket (Num 1) (Str ''a'') (Str ''b'') singleIndex
       = Inr (singleIndex(toString (Num 1) \<mapsto>
                ([120 \<mapsto> SArr [Num 4]](hashCode (Str ''b'') \<mapsto> SUndefined))
                   (hashCode (Str ''a'') \<mapsto> SNull)))"
    using transferBucket_absent_source [OF nonblank_examples(1) nonblank_examples(5)
      nonblank_examples(6) g1 s n, where col = "[120 \<mapsto> SArr [Num 4]]"] g1 g2 c
    by (simp add: trim_def isWhiteSpace_def)
  have two: "showInt 2 = ''2''"
    by (simp add: showInt_def showNat.simps digitChar_def)
  have nb2: "\<not> isEmptyString (Num 2)"
    by simp
  have n2: "\<not> inheritedName (toString (Num 2))"
    by (simp add: inheritedName_def objectPrototypeNames_def two)
  have c2: "singleIndex (toString (Num 2)) = None"
    by (simp add: singleIndex_def two)
  have g3: "getValue (Num 2) (Str ''a'') singleIndex = Inr SNull"
    by (simp add: getValue_def singleIndex_def two trim_def isWhiteSpace_def)
  have s2: "SNull = SNull \<or> SNull = SUndefined"
    by simp
  from transferBucket_absent_source [OF nb2 nonblank_examples(5) nonblank_examples(6) g3 s2 n2] c2
  have second: "transferBucket (Num 2) (Str ''a'') (Str ''b'') singleIndex = Inl TypeError"
    by blast
  from nonblank_examples(1) nonblank_examples(5) nonblank_examples(6) n g1 c g2 first
    nb2 n2 g3 c2 second
  show ?thesis
    by (intro conjI) (erule conjunct1 conjunct2 | assumption)+
qed

text \<open>
  Claim C9 as stated fails on an index whose column 1 holds only the bucket of \<open>'x'\<close>:
  nothing is stored for \<open>(1, 'a')\<close>, and \<open>transferBucket(1, 'a', 'b')\<close> returns normally,
  leaving \<open>undefined\<close> as the bucket of \<open>'b'\<close> and \<open>null\<close> as the bucket of \<open>'a'\<close>.
\<close>

theorem transferBucket_absent_source_counterexample:
  "getValue (Num 1) (Str ''a'') singleIndex = Inr SUndefined
   \<and> transferBucket (Num 1) (Str ''a'') (Str ''b'') singleIndex
       = Inr [''1'' \<mapsto> [120 \<mapsto> SArr [Num 4], 98 \<mapsto> SUndefined, 97 \<mapsto> SNull]]"
  by (simp add: getValue_def transferBucket_def andThen_def singleIndex_def toString_1
        hashCode_a hashCode_b trim_def isWhiteSpace_def)

section \<open>Read-only fields: properties\<close>

text \<open>
  Claim C3, as amended. In a row whose \<open>etaId\<close> cell is not empty, every field but
  \<open>etaStatus\<close> and \<open>staStatus\<close> is classified read-only. An edit, in a content row, of a
  field classified read-only whose prior value is not blank is rejected: the prior value
  is written back into the cell, the user is told that the field is read-only, and
  nothing else changes. When the prior value is blank the cell is left as edited and the
  user is told that the revert failed.
\<close>

theorem readOnly_edit_rejected:
  "(columnIndex cfg ColumnNames_etaStatus = Some i \<and> columnIndex cfg ColumnNames_etaId = Some j
      \<and> \<not> isEmptyString (cellValues sh (row, j + 1))
      \<and> columnName \<noteq> Str ColumnNames_etaStatus \<and> columnName \<noteq> Str ColumnNames_staStatus
    \<longrightarrow> isReadOnly sh (Some cfg) row columnName old = Inr True)
   \<and> (firstContentRow cfg \<le> editRow ev
      \<and> isReadOnly sh (Some cfg) (editRow ev) (columnNameAt cfg (editColumn ev)) (oldValue ev)
          = Inr True
    \<longrightarrow> onCellEdit accepted cfg ev sh =
          Inr (if isEmptyString (oldValue ev)
               then sh\<lparr>toasts := toasts sh
                      @ [''Failed to revert to old value - previous value not found.'']\<rparr>
               else sh\<lparr>cellValues := (cellValues sh)((editRow ev, editColumn ev) := oldValue ev),
                      toasts := toasts sh
                      @ [toString (columnNameAt cfg (editColumn ev))
                           @ '' is read-only (and may populate automatically).'']\<rparr>))"
  by (auto simp: isReadOnly_def onCellEdit_def revertEdit_def showMessage_def andThen_def
        Let_def split: option.splits)

theorem readOnly_edit_rejected_witness:
  "columnIndex exampleConfig ColumnNames_etaStatus = Some 2
   \<and> columnIndex exampleConfig ColumnNames_etaId = Some 3
   \<and> \<not> isEmptyString (cellValues exampleSheet (4, 3 + 1))
   \<and> Str ''headline1'' \<noteq> Str ColumnNames_etaStatus \<and> Str ''headline1'' \<noteq> Str ColumnNames_staStatus
   \<and> columnNameAt exampleConfig 2 = Str ''headline1''
   \<and> isReadOnly exampleSheet (Some exampleConfig) 4 (Str ''headline1'') (Str ''Old headline'') = Inr True
   \<and> \<not> isEmptyString (Str ''Old headline'')
   \<and> onCellEdit Inr exampleConfig \<lparr>editRow = 4, editColumn = 2, oldValue = Str ''Old headline''\<rparr>
        exampleSheet
       = Inr (exampleSheet\<lparr>cellValues := (cellValues exampleSheet)((4, 2) := Str ''Old headline''),
                toasts := [''headline1 is read-only (and may populate automatically).'']\<rparr>)"
proof -
  have c: "columnIndex exampleConfig ColumnNames_etaStatus = Some 2"
    "columnIndex exampleConfig ColumnNames_etaId = Some 3"
    by (simp_all add: exampleConfig_def ColumnNames_etaStatus_def ColumnNames_etaId_def)
  have e: "\<not> isEmptyString (cellValues exampleSheet (4, 3 + 1))"
    by (simp add: exampleSheet_def)
  have n: "Str ''headline1'' \<noteq> Str ColumnNames_etaStatus" "Str ''headline1'' \<noteq> Str ColumnNames_staStatus"
    by (simp_all add: ColumnNames_etaStatus_def ColumnNames_staStatus_def)
  have at: "columnNameAt exampleConfig 2 = Str ''headline1''"
    by (simp add: columnNameAt_def exampleConfig_def)
  have nb: "\<not> isEmptyString (Str ''Old headline'')"
    by (simp add: trim_def isWhiteSpace_def)
  note inst = readOnly_edit_rejected [where cfg = exampleConfig and sh = exampleSheet and i = 2
      and j = 3 and row = 4 and columnName = "Str ''headline1''" and old = "Str ''Old headline''"
      and ev = "\<lparr>editRow = 4, editColumn = 2, oldValue = Str ''Old headline''\<rparr>"
      and accepted = Inr]
  from inst c e n
  have ro: "isReadOnly exampleSheet (Some exampleConfig) 4 (Str ''headline1'') (Str ''Old headline'')
      = Inr True"
    by blast
  have f: "firstContentRow exampleConfig \<le> 4" and t: "toasts exampleSheet = []"
    by (simp_all add: exampleConfig_def exampleSheet_def)
  from inst ro at nb f t
  have r: "onCellEdit Inr exampleConfig \<lparr>editRow = 4, editColumn = 2, oldValue = Str ''Old headline''\<rparr>
        exampleSheet
       = Inr (exampleSheet\<lparr>cellValues := (cellValues exampleSheet)((4, 2) := Str ''Old headline''),
                toasts := [''headline1 is read-only (and may populate automatically).'']\<rparr>)"
    by simp
  from c e n at ro nb r show ?thesis
    by (intro conjI)
qed

text \<open>
  Claim C3 as stated fails twice on the example row, whose \<open>etaId\<close> cell holds 123. The
  field \<open>staStatus\<close>, which is not the replacement entity's own status field, is not
  classified read-only. And the edit of \<open>headline1\<close>, which is classified read-only, is
  not undone when the cell was empty before: the new value stays in the cell.
\<close>

theorem readOnly_staStatus_counterexample:
  "\<not> isEmptyString (cellValues exampleSheet (4, 4))
   \<and> Str ''staStatus'' \<noteq> Str ColumnNames_etaStatus
   \<and> isReadOnly exampleSheet (Some exampleConfig) 4 (Str ''staStatus'') (Str ''paused'') = Inr False
   \<and> isReadOnly exampleSheet (Some exampleConfig) 4 (Str ''headline1'') Undefined = Inr True
   \<and> onCellEdit Inr exampleConfig \<lparr>editRow = 4, editColumn = 2, oldValue = Undefined\<rparr> exampleSheet
       = Inr (exampleSheet\<lparr>toasts := [''Failed to revert to old value - previous value not found.'']\<rparr>)
   \<and> cellValues exampleSheet (4, 2) = Str ''New headline''"
  by (simp add: isReadOnly_def onCellEdit_def revertEdit_def showMessage_def andThen_def
        columnNameAt_def exampleConfig_def exampleSheet_def ColumnNames_etaStatus_def
        ColumnNames_staStatus_def ColumnNames_etaId_def AdStatus_disabled_def)

section \<open>Mismatch highlighting: properties\<close>

lemma domainOf_column:
  "domainOf parse row c = Inr d \<Longrightarrow> \<exists>i. nameToIndex row c = Some i"
  by (auto simp: domainOf_def getArray_def sheet_getColumnIndex_def andThen_def
        split: option.splits)

lemma domainOf_empty:
  "getArray parse c row = Inr [] \<Longrightarrow> domainOf parse row c = Inl (Thrown ''Invalid `url` parameter.'')"
  by (simp add: domainOf_def andThen_def firstElement_def getDomain_def)

lemma everyMatch_step:
  "everyMatch parse row (c # cs) init prev =
     andThen (domainOf parse row c) (\<lambda>domain.
       if init then everyMatch parse row cs False (Some domain)
       else if prev \<noteq> Some domain then Inr False
       else everyMatch parse row cs False (Some domain))"
  by (simp add: domainOf_def andThen_def split: sum.splits)

lemma everyMatch_running:
  assumes "\<forall>c \<in> set cs. \<exists>d. domainOf parse row c = Inr d"
  shows "everyMatch parse row cs False (Some d0) = Inr (\<forall>c \<in> set cs. domainOf parse row c = Inr d0)"
  using assms
proof (induction cs)
  case Nil
  then show ?case by simp
next
  case (Cons c cs)
  then obtain d where d: "domainOf parse row c = Inr d"
    by auto
  from Cons have IH: "everyMatch parse row cs False (Some d0)
      = Inr (\<forall>c \<in> set cs. domainOf parse row c = Inr d0)"
    by simp
  show ?case
  proof (cases "d = d0")
    case True
    with d IH show ?thesis
      by (simp add: everyMatch_step andThen_def del: everyMatch.simps)
  next
    case False
    with d show ?thesis
      by (simp add: everyMatch_step andThen_def del: everyMatch.simps)
  qed
qed

lemma everyMatch_all:
  assumes "\<forall>c \<in> set cs. \<exists>d. domainOf parse row c = Inr d"
  shows "everyMatch parse row cs True prev
           = Inr (\<forall>c \<in> set cs. \<forall>c' \<in> set cs. domainOf parse row c = domainOf parse row c')"
proof (cases cs)
  case Nil
  then show ?thesis by simp
next
  case (Cons c rest)
  with assms obtain d where d: "domainOf parse row c = Inr d"
    by auto
  from assms Cons have "\<forall>c \<in> set rest. \<exists>d. domainOf parse row c = Inr d"
    by simp
  from everyMatch_running [OF this]
  have "everyMatch parse row rest False (Some d) = Inr (\<forall>c \<in> set rest. domainOf parse row c = Inr d)" .
  moreover have "(\<forall>c \<in> set rest. domainOf parse row c = Inr d)
      \<longleftrightarrow> (\<forall>a \<in> set cs. \<forall>b \<in> set cs. domainOf parse row a = domainOf parse row b)"
    using d Cons by auto
  ultimately show ?thesis
    using d Cons by (simp add: everyMatch_step andThen_def del: everyMatch.simps)
qed

lemma everyMatch_raises_running:
  assumes "\<forall>b \<in> set before. domainOf parse row b = Inr d" and "domainOf parse row c = Inl e"
  shows "everyMatch parse row (before @ c # after) False (Some d) = Inl e"
  using assms
  by (induction before) (simp_all add: everyMatch_step andThen_def del: everyMatch.simps)

lemma everyMatch_raises:
  assumes "\<forall>b \<in> set before. domainOf parse row b = Inr d" and "domainOf parse row c = Inl e"
  shows "everyMatch parse row (before @ c # after) True prev = Inl e"
proof (cases before)
  case Nil
  with assms show ?thesis
    by (simp add: everyMatch_step andThen_def del: everyMatch.simps)
next
  case (Cons b bs)
  with assms have "domainOf parse row b = Inr d" and "\<forall>b \<in> set bs. domainOf parse row b = Inr d"
    by simp_all
  with everyMatch_raises_running [OF this(2) assms(2)] Cons show ?thesis
    by (simp add: everyMatch_step andThen_def del: everyMatch.simps)
qed

lemma everyMatch_mismatch_running:
  assumes "\<forall>b \<in> set before. domainOf parse row b = Inr d"
    and "domainOf parse row c = Inr d'" and "d' \<noteq> d"
  shows "everyMatch parse row (before @ c # after) False (Some d) = Inr False"
  using assms
  by (induction before) (simp_all add: everyMatch_step andThen_def del: everyMatch.simps)

lemma everyMatch_mismatch:
  assumes "before \<noteq> []" and "\<forall>b \<in> set before. domainOf parse row b = Inr d"
    and "domainOf parse row c = Inr d'" and "d' \<noteq> d"
  shows "everyMatch parse row (before @ c # after) True prev = Inr False"
proof (cases before)
  case Nil
  with assms(1) show ?thesis by simp
next
  case (Cons b bs)
  with assms(2) have "domainOf parse row b = Inr d" and "\<forall>b \<in> set bs. domainOf parse row b = Inr d"
    by simp_all
  with everyMatch_mismatch_running [OF this(2) assms(3) assms(4)] Cons show ?thesis
    by (simp add: everyMatch_step andThen_def del: everyMatch.simps)
qed

lemma setBackgrounds_all:
  assumes "\<forall>c \<in> set cs. \<exists>i. nameToIndex row c = Some i"
  shows "\<exists>row'. setBackgrounds color cs row = Inr row'
           \<and> cells row' = cells row \<and> nameToIndex row' = nameToIndex row
           \<and> (\<forall>k. cellBackgrounds row' k =
                  (if \<exists>c \<in> set cs. nameToIndex row c = Some k then color
                   else cellBackgrounds row k))"
  using assms
proof (induction cs arbitrary: row)
  case Nil
  then show ?case by simp
next
  case (Cons c cs)
  then obtain i where i: "nameToIndex row c = Some i"
    by auto
  define mid where "mid = row\<lparr>cellBackgrounds := (cellBackgrounds row)(i := color)\<rparr>"
  have mid: "cells mid = cells row" "nameToIndex mid = nameToIndex row"
    "cellBackgrounds mid = (cellBackgrounds row)(i := color)"
    by (simp_all add: mid_def)
  from Cons.prems mid have "\<forall>c \<in> set cs. \<exists>i. nameToIndex mid c = Some i"
    by simp
  from Cons.IH [OF this] obtain row' where run: "setBackgrounds color cs mid = Inr row'"
    and c: "cells row' = cells mid" and n: "nameToIndex row' = nameToIndex mid"
    and b: "\<And>k. cellBackgrounds row' k =
                  (if \<exists>c \<in> set cs. nameToIndex mid c = Some k then color
                   else cellBackgrounds mid k)"
    by blast
  from i run have "setBackgrounds color (c # cs) row = Inr row'"
    by (simp add: sheet_getColumnIndex_def mid_def)
  moreover from c n mid have "cells row' = cells row" "nameToIndex row' = nameToIndex row"
    by simp_all
  moreover have "\<forall>k. cellBackgrounds row' k =
                  (if \<exists>a \<in> set (c # cs). nameToIndex row a = Some k then color
                   else cellBackgrounds row k)"
  proof
    fix k
    show "cellBackgrounds row' k =
                  (if \<exists>a \<in> set (c # cs). nameToIndex row a = Some k then color
                   else cellBackgrounds row k)"
      unfolding b [of k] mid using i by auto
  qed
  ultimately show ?case
    by blast
qed

text \<open>
  Claim C5, as amended. The compared fields are taken in order.
  \<^item> If a compared field's parsed list of values is empty, and the compared fields before
    it all have one and the same domain (or there is none before it), the operation
    raises \<open>Invalid `url` parameter.\<close> and leaves the row as it was: no background is
    set.
  \<^item> If a compared field's domain differs from the one domain of the compared fields
    before it, the comparison fails as a mismatch without raising, whatever the fields
    after it hold (also an empty list): with every compared field a column of the row,
    every compared cell's background is set to the highlight colour.
  \<^item> If every compared field has a domain, the operation returns normally, and every
    compared cell's background is cleared when all the domains are equal and set to the
    highlight colour when two of them differ.
  Where the operation returns, the cell values and all other backgrounds are as before.
\<close>

theorem highlightMismatchFields_outcome:
  "((\<forall>b \<in> set before. domainOf parse row b = Inr d) \<and> getArray parse c row = Inr []
      \<longrightarrow> highlightMismatchFields parse row (before @ c # after) color
            = Inl (Thrown ''Invalid `url` parameter.'', row))
   \<and> (before \<noteq> [] \<and> (\<forall>b \<in> set before. domainOf parse row b = Inr d)
        \<and> domainOf parse row c = Inr d' \<and> d' \<noteq> d
        \<and> (\<forall>a \<in> set after. \<exists>i. nameToIndex row a = Some i)
      \<longrightarrow> (\<exists>row'. highlightMismatchFields parse row (before @ c # after) color = Inr row'
             \<and> cells row' = cells row \<and> nameToIndex row' = nameToIndex row
             \<and> (\<forall>i. cellBackgrounds row' i =
                   (if \<exists>x \<in> set (before @ c # after). nameToIndex row x = Some i
                    then Some color else cellBackgrounds row i))))
   \<and> ((\<forall>c \<in> set columnNames. \<exists>d. domainOf parse row c = Inr d)
      \<longrightarrow> (\<exists>row'. highlightMismatchFields parse row columnNames color = Inr row'
             \<and> cells row' = cells row \<and> nameToIndex row' = nameToIndex row
             \<and> (\<forall>i. cellBackgrounds row' i =
                   (if \<exists>c \<in> set columnNames. nameToIndex row c = Some i
                    then (if \<forall>a \<in> set columnNames. \<forall>b \<in> set columnNames.
                               domainOf parse row a = domainOf parse row b
                          then None else Some color)
                    else cellBackgrounds row i))))"
proof (intro conjI impI)
  assume "(\<forall>b \<in> set before. domainOf parse row b = Inr d) \<and> getArray parse c row = Inr []"
  then have "\<forall>b \<in> set before. domainOf parse row b = Inr d"
    and "domainOf parse row c = Inl (Thrown ''Invalid `url` parameter.'')"
    by (simp_all add: domainOf_empty)
  from everyMatch_raises [OF this]
  have "everyMatch parse row (before @ c # after) True None = Inl (Thrown ''Invalid `url` parameter.'')" .
  then show "highlightMismatchFields parse row (before @ c # after) color
      = Inl (Thrown ''Invalid `url` parameter.'', row)"
    by (simp only: highlightMismatchFields_def sum.case)
next
  assume h: "before \<noteq> [] \<and> (\<forall>b \<in> set before. domainOf parse row b = Inr d)
        \<and> domainOf parse row c = Inr d' \<and> d' \<noteq> d
        \<and> (\<forall>a \<in> set after. \<exists>i. nameToIndex row a = Some i)"
  then have ne: "before \<noteq> []" and pre: "\<forall>b \<in> set before. domainOf parse row b = Inr d"
    and c: "domainOf parse row c = Inr d'" and diff: "d' \<noteq> d"
    and post: "\<forall>a \<in> set after. \<exists>i. nameToIndex row a = Some i"
    by simp_all
  from everyMatch_mismatch [OF ne pre c diff]
  have ev: "everyMatch parse row (before @ c # after) True None = Inr False" .
  from pre c post have cols: "\<forall>x \<in> set (before @ c # after). \<exists>i. nameToIndex row x = Some i"
    by (auto dest: domainOf_column)
  from setBackgrounds_all [OF cols, of "Some color"]
  obtain row' where run: "setBackgrounds (Some color) (before @ c # after) row = Inr row'"
    and rest: "cells row' = cells row" "nameToIndex row' = nameToIndex row"
      "\<forall>k. cellBackgrounds row' k =
                  (if \<exists>x \<in> set (before @ c # after). nameToIndex row x = Some k then Some color
                   else cellBackgrounds row k)"
    by blast
  from ev run have "highlightMismatchFields parse row (before @ c # after) color = Inr row'"
    by (simp only: highlightMismatchFields_def sum.case not_False_eq_True if_True)
  with rest show "\<exists>row'. highlightMismatchFields parse row (before @ c # after) color = Inr row'
             \<and> cells row' = cells row \<and> nameToIndex row' = nameToIndex row
             \<and> (\<forall>i. cellBackgrounds row' i =
                   (if \<exists>x \<in> set (before @ c # after). nameToIndex row x = Some i
                    then Some color else cellBackgrounds row i))"
    by (intro exI [where x = row'] conjI)
next
  assume all: "\<forall>c \<in> set columnNames. \<exists>d. domainOf parse row c = Inr d"
  then have cols: "\<forall>c \<in> set columnNames. \<exists>i. nameToIndex row c = Some i"
    by (blast dest: domainOf_column)
  define same where "same \<longleftrightarrow> (\<forall>a \<in> set columnNames. \<forall>b \<in> set columnNames.
      domainOf parse row a = domainOf parse row b)"
  from everyMatch_all [OF all]
  have ev: "everyMatch parse row columnNames True None = Inr same"
    by (simp only: same_def)
  from setBackgrounds_all [OF cols, of "if \<not> same then Some color else None"]
  obtain row' where run: "setBackgrounds (if \<not> same then Some color else None) columnNames row = Inr row'"
    and c: "cells row' = cells row" and n: "nameToIndex row' = nameToIndex row"
    and b: "\<forall>k. cellBackgrounds row' k =
                  (if \<exists>c \<in> set columnNames. nameToIndex row c = Some k
                   then (if \<not> same then Some color else None)
                   else cellBackgrounds row k)"
    by blast
  from ev run have "highlightMismatchFields parse row columnNames color = Inr row'"
    by (simp only: highlightMismatchFields_def sum.case)
  moreover from b have "\<forall>i. cellBackgrounds row' i =
                   (if \<exists>c \<in> set columnNames. nameToIndex row c = Some i
                    then (if same then None else Some color)
                    else cellBackgrounds row i)"
    by simp
  ultimately show "\<exists>row'. highlightMismatchFields parse row columnNames color = Inr row'
             \<and> cells row' = cells row \<and> nameToIndex row' = nameToIndex row
             \<and> (\<forall>i. cellBackgrounds row' i =
                   (if \<exists>c \<in> set columnNames. nameToIndex row c = Some i
                    then (if \<forall>a \<in> set columnNames. \<forall>b \<in> set columnNames.
                               domainOf parse row a = domainOf parse row b
                          then None else Some color)
                    else cellBackgrounds row i))"
    using c n unfolding same_def by blast
qed

text \<open>
  A raise while painting (a compared column that the row lacks, reached after a
  mismatch has ended the comparison early) leaves the cells painted so far painted.
\<close>

lemma setBackgrounds_raise_keeps_painted:
  assumes "nameToIndex row c = Some i" and "nameToIndex row missing = None"
  shows "setBackgrounds color [c, missing] row =
           Inl (Thrown (''Column `'' @ missing @ ''` does not exist.''),
                row\<lparr>cellBackgrounds := (cellBackgrounds row)(i := color)\<rparr>)"
  using assms by (simp add: sheet_getColumnIndex_def)

lemma example_domains:
  "domainOf exampleParse emptyUrlRow ''displayUrl'' = Inr ''example.com''"
  "getArray exampleParse ''finalUrl'' emptyUrlRow = Inr []"
  "domainOf exampleParse matchingUrlRow ''displayUrl'' = Inr ''example.com''"
  "domainOf exampleParse matchingUrlRow ''finalUrl'' = Inr ''example.com''"
  "domainOf exampleParse mismatchUrlRow ''displayUrl'' = Inr ''example.com''"
  "domainOf exampleParse mismatchUrlRow ''finalUrl'' = Inr ''other.org''"
  "domainOf exampleParse mismatchThenEmptyRow ''displayUrl'' = Inr ''example.com''"
  "domainOf exampleParse mismatchThenEmptyRow ''finalUrl'' = Inr ''other.org''"
  "getArray exampleParse ''mobileFinalUrl'' mismatchThenEmptyRow = Inr []"
  by code_simp+

lemma example_columns:
  "nameToIndex emptyUrlRow = [''displayUrl'' \<mapsto> 0, ''finalUrl'' \<mapsto> 1, ''mobileFinalUrl'' \<mapsto> 2]"
  "nameToIndex matchingUrlRow = [''displayUrl'' \<mapsto> 0, ''finalUrl'' \<mapsto> 1, ''mobileFinalUrl'' \<mapsto> 2]"
  "nameToIndex mismatchUrlRow = [''displayUrl'' \<mapsto> 0, ''finalUrl'' \<mapsto> 1, ''mobileFinalUrl'' \<mapsto> 2]"
  "nameToIndex mismatchThenEmptyRow
     = [''displayUrl'' \<mapsto> 0, ''finalUrl'' \<mapsto> 1, ''mobileFinalUrl'' \<mapsto> 2]"
  "cellBackgrounds matchingUrlRow = (\<lambda>i. Some ''#00FF00'')"
  "cellBackgrounds mismatchUrlRow = (\<lambda>i. Some ''#00FF00'')"
  "cellBackgrounds mismatchThenEmptyRow = (\<lambda>i. Some ''#00FF00'')"
  by (simp_all add: emptyUrlRow_def matchingUrlRow_def mismatchUrlRow_def
        mismatchThenEmptyRow_def exampleUrlRow_def)

theorem highlightMismatchFields_outcome_witness:
  "domainOf exampleParse emptyUrlRow ''displayUrl'' = Inr ''example.com''
   \<and> getArray exampleParse ''finalUrl'' emptyUrlRow = Inr []
   \<and> highlightMismatchFields exampleParse emptyUrlRow ([''displayUrl''] @ ''finalUrl'' # []) ''#FF0000''
       = Inl (Thrown ''Invalid `url` parameter.'', emptyUrlRow)
   \<and> domainOf exampleParse mismatchThenEmptyRow ''displayUrl'' = Inr ''example.com''
   \<and> domainOf exampleParse mismatchThenEmptyRow ''finalUrl'' = Inr ''other.org''
   \<and> getArray exampleParse ''mobileFinalUrl'' mismatchThenEmptyRow = Inr []
   \<and> (\<exists>row'. highlightMismatchFields exampleParse mismatchThenEmptyRow
                  ([''displayUrl''] @ ''finalUrl'' # [''mobileFinalUrl'']) ''#FF0000'' = Inr row'
          \<and> cells row' = cells mismatchThenEmptyRow
          \<and> cellBackgrounds row' 0 = Some ''#FF0000'' \<and> cellBackgrounds row' 1 = Some ''#FF0000''
          \<and> cellBackgrounds row' 2 = Some ''#FF0000'' \<and> cellBackgrounds row' 3 = Some ''#00FF00'')
   \<and> domainOf exampleParse matchingUrlRow ''displayUrl'' = Inr ''example.com''
   \<and> domainOf exampleParse matchingUrlRow ''finalUrl'' = Inr ''example.com''
   \<and> (\<exists>row'. highlightMismatchFields exampleParse matchingUrlRow [''displayUrl'', ''finalUrl''] ''#FF0000''
                = Inr row'
          \<and> cells row' = cells matchingUrlRow
          \<and> cellBackgrounds row' 0 = None \<and> cellBackgrounds row' 1 = None
          \<and> cellBackgrounds row' 2 = Some ''#00FF00'')
   \<and> domainOf exampleParse mismatchUrlRow ''displayUrl'' = Inr ''example.com''
   \<and> domainOf exampleParse mismatchUrlRow ''finalUrl'' = Inr ''other.org''
   \<and> (\<exists>row'. highlightMismatchFields exampleParse mismatchUrlRow [''displayUrl'', ''finalUrl''] ''#FF0000''
                = Inr row'
          \<and> cells row' = cells mismatchUrlRow
          \<and> cellBackgrounds row' 0 = Some ''#FF0000'' \<and> cellBackgrounds row' 1 = Some ''#FF0000''
          \<and> cellBackgrounds row' 2 = Some ''#00FF00'')"
proof -
  note d = example_domains
  have before: "\<forall>b \<in> set [''displayUrl'']. domainOf exampleParse emptyUrlRow b = Inr ''example.com''"
    by (simp add: d)
  from highlightMismatchFields_outcome [where parse = exampleParse and row = emptyUrlRow
      and before = "[''displayUrl'']" and c = "''finalUrl''" and after = "[]"
      and d = "''example.com''" and color = "''#FF0000''"] before d(2)
  have raised: "highlightMismatchFields exampleParse emptyUrlRow ([''displayUrl''] @ ''finalUrl'' # [])
      ''#FF0000'' = Inl (Thrown ''Invalid `url` parameter.'', emptyUrlRow)"
    by blast
  have pre: "[''displayUrl''] \<noteq> []"
    "\<forall>b \<in> set [''displayUrl'']. domainOf exampleParse mismatchThenEmptyRow b = Inr ''example.com''"
    "''other.org'' \<noteq> ''example.com''"
    "\<forall>a \<in> set [''mobileFinalUrl'']. \<exists>i. nameToIndex mismatchThenEmptyRow a = Some i"
    by (simp_all add: d example_columns)
  from highlightMismatchFields_outcome [where parse = exampleParse and row = mismatchThenEmptyRow
      and before = "[''displayUrl'']" and c = "''finalUrl''" and after = "[''mobileFinalUrl'']"
      and d = "''example.com''" and d' = "''other.org''" and color = "''#FF0000''"] pre d(8)
  obtain re where re: "highlightMismatchFields exampleParse mismatchThenEmptyRow
        ([''displayUrl''] @ ''finalUrl'' # [''mobileFinalUrl'']) ''#FF0000'' = Inr re"
      "cells re = cells mismatchThenEmptyRow"
    and be: "\<forall>i. cellBackgrounds re i =
                   (if \<exists>x \<in> set ([''displayUrl''] @ ''finalUrl'' # [''mobileFinalUrl'']).
                          nameToIndex mismatchThenEmptyRow x = Some i
                    then Some ''#FF0000'' else cellBackgrounds mismatchThenEmptyRow i)"
    by blast
  from be have e: "cellBackgrounds re 0 = Some ''#FF0000''" "cellBackgrounds re 1 = Some ''#FF0000''"
    "cellBackgrounds re 2 = Some ''#FF0000''" "cellBackgrounds re 3 = Some ''#00FF00''"
    by (simp_all add: example_columns)
  have allm: "\<forall>c \<in> set [''displayUrl'', ''finalUrl'']. \<exists>d. domainOf exampleParse matchingUrlRow c = Inr d"
    by (simp add: d)
  from highlightMismatchFields_outcome [where parse = exampleParse and row = matchingUrlRow
      and columnNames = "[''displayUrl'', ''finalUrl'']" and color = "''#FF0000''"] allm
  obtain rm where rm: "highlightMismatchFields exampleParse matchingUrlRow [''displayUrl'', ''finalUrl'']
        ''#FF0000'' = Inr rm" "cells rm = cells matchingUrlRow"
    and bm: "\<forall>i. cellBackgrounds rm i =
                   (if \<exists>c \<in> set [''displayUrl'', ''finalUrl'']. nameToIndex matchingUrlRow c = Some i
                    then (if \<forall>a \<in> set [''displayUrl'', ''finalUrl''].
                               \<forall>b \<in> set [''displayUrl'', ''finalUrl''].
                               domainOf exampleParse matchingUrlRow a = domainOf exampleParse matchingUrlRow b
                          then None else Some ''#FF0000'')
                    else cellBackgrounds matchingUrlRow i)"
    by blast
  from bm have m: "cellBackgrounds rm 0 = None" "cellBackgrounds rm 1 = None"
    "cellBackgrounds rm 2 = Some ''#00FF00''"
    by (simp_all add: d example_columns)
  have alln: "\<forall>c \<in> set [''displayUrl'', ''finalUrl'']. \<exists>d. domainOf exampleParse mismatchUrlRow c = Inr d"
    by (simp add: d)
  from highlightMismatchFields_outcome [where parse = exampleParse and row = mismatchUrlRow
      and columnNames = "[''displayUrl'', ''finalUrl'']" and color = "''#FF0000''"] alln
  obtain rn where rn: "highlightMismatchFields exampleParse mismatchUrlRow [''displayUrl'', ''finalUrl'']
        ''#FF0000'' = Inr rn" "cells rn = cells mismatchUrlRow"
    and bn: "\<forall>i. cellBackgrounds rn i =
                   (if \<exists>c \<in> set [''displayUrl'', ''finalUrl'']. nameToIndex mismatchUrlRow c = Some i
                    then (if \<forall>a \<in> set [''displayUrl'', ''finalUrl''].
                               \<forall>b \<in> set [''displayUrl'', ''finalUrl''].
                               domainOf exampleParse mismatchUrlRow a = domainOf exampleParse mismatchUrlRow b
                          then None else Some ''#FF0000'')
                    else cellBackgrounds mismatchUrlRow i)"
    by blast
  from bn have n: "cellBackgrounds rn 0 = Some ''#FF0000''" "cellBackgrounds rn 1 = Some ''#FF0000''"
    "cellBackgrounds rn 2 = Some ''#00FF00''"
    by (simp_all add: d example_columns)
  from re e have ee: "\<exists>row'. highlightMismatchFields exampleParse mismatchThenEmptyRow
                  ([''displayUrl''] @ ''finalUrl'' # [''mobileFinalUrl'']) ''#FF0000'' = Inr row'
          \<and> cells row' = cells mismatchThenEmptyRow
          \<and> cellBackgrounds row' 0 = Some ''#FF0000'' \<and> cellBackgrounds row' 1 = Some ''#FF0000''
          \<and> cellBackgrounds row' 2 = Some ''#FF0000'' \<and> cellBackgrounds row' 3 = Some ''#00FF00''"
    by (intro exI [where x = re] conjI)
  from rm m have em: "\<exists>row'. highlightMismatchFields exampleParse matchingUrlRow
        [''displayUrl'', ''finalUrl''] ''#FF0000'' = Inr row'
          \<and> cells row' = cells matchingUrlRow
          \<and> cellBackgrounds row' 0 = None \<and> cellBackgrounds row' 1 = None
          \<and> cellBackgrounds row' 2 = Some ''#00FF00''"
    by (intro exI [where x = rm] conjI)
  from rn n have en: "\<exists>row'. highlightMismatchFields exampleParse mismatchUrlRow
        [''displayUrl'', ''finalUrl''] ''#FF0000'' = Inr row'
          \<and> cells row' = cells mismatchUrlRow
          \<and> cellBackgrounds row' 0 = Some ''#FF0000'' \<and> cellBackgrounds row' 1 = Some ''#FF0000''
          \<and> cellBackgrounds row' 2 = Some ''#00FF00''"
    by (intro exI [where x = rn] conjI)
  from d(1) d(2) raised d(7) d(8) d(9) ee d(3) d(4) em d(5) d(6) en show ?thesis
    by (intro conjI)
qed

text \<open>
  Claim C5 as stated fails on a row whose \<open>displayUrl\<close> cell holds a URL and whose
  \<open>finalUrl\<close> cell is empty: the parsed list of \<open>finalUrl\<close> is empty, and the operation
  raises instead of treating the fields as a mismatch; the row is left as it was, with
  no cell highlighted.
\<close>

theorem highlightMismatchFields_empty_counterexample:
  "getArray exampleParse ''displayUrl'' emptyUrlRow = Inr [JStr ''www.Example.com/shoes'']
   \<and> getArray exampleParse ''finalUrl'' emptyUrlRow = Inr []
   \<and> highlightMismatchFields exampleParse emptyUrlRow [''displayUrl'', ''finalUrl''] ''#FF0000''
       = Inl (Thrown ''Invalid `url` parameter.'', emptyUrlRow)"
proof -
  have shown: "getArray exampleParse ''displayUrl'' emptyUrlRow = Inr [JStr ''www.Example.com/shoes'']"
    by code_simp
  have d1: "domainOf exampleParse emptyUrlRow ''displayUrl'' = Inr ''example.com''"
    by (rule example_domains(1))
  have d2: "domainOf exampleParse emptyUrlRow ''finalUrl'' = Inl (Thrown ''Invalid `url` parameter.'')"
    by (rule domainOf_empty [OF example_domains(2)])
  have "everyMatch exampleParse emptyUrlRow [''displayUrl'', ''finalUrl''] True None
      = Inl (Thrown ''Invalid `url` parameter.'')"
    by (simp add: everyMatch_step andThen_def d1 d2 del: everyMatch.simps)
  then have "highlightMismatchFields exampleParse emptyUrlRow [''displayUrl'', ''finalUrl''] ''#FF0000''
       = Inl (Thrown ''Invalid `url` parameter.'', emptyUrlRow)"
    by (simp only: highlightMismatchFields_def sum.case)
  with shown example_domains(2) show ?thesis
    by (intro conjI)
qed

section \<open>Row error state: properties\<close>

lemma setCell_hasErrors: "setCell c v row = Inr row' \<Longrightarrow> hasErrors row' = hasErrors row"
  by (auto simp: setCell_def getColumnIndex_def andThen_def hasErrors_def split: option.splits)

lemma markAsResolved_hasErrors:
  "markAsResolved row = Inr row' \<Longrightarrow> hasErrors row' = hasErrors row"
  by (auto simp: markAsResolved_def dest!: setCell_hasErrors simp: hasErrors_def)

lemma markAsError_hasErrors: "markAsError msgs row = Inr row' \<Longrightarrow> hasErrors row'"
  by (auto simp: markAsError_def setCell_def getCellValue_def getColumnIndex_def andThen_def
        hasErrors_def print_def Let_def split: option.splits if_splits)

lemma markAsError_columns:
  "markAsError msgs row = Inr row' \<Longrightarrow> columnNamesToIndices row' = columnNamesToIndices row
     \<and> columnNamesToIndices row ''errorMessage'' \<noteq> None"
  by (auto simp: markAsError_def setCell_def getCellValue_def getColumnIndex_def andThen_def
        print_def Let_def split: option.splits if_splits)

lemma applyCall_keeps_flag:
  "applyCall c row = Inr row' \<Longrightarrow> hasErrors row \<Longrightarrow> hasErrors row'"
  by (cases c) (auto dest: markAsError_hasErrors markAsResolved_hasErrors setCell_hasErrors)

lemma rowCalls_keep_flag:
  "rowCalls cs row = Inr row' \<Longrightarrow> hasErrors row \<Longrightarrow> hasErrors row'"
proof (induction cs arbitrary: row)
  case Nil
  then show ?case by simp
next
  case (Cons c cs)
  from Cons.prems(1) obtain mid where step: "applyCall c row = Inr mid"
    and rest: "rowCalls cs mid = Inr row'"
    by (auto simp: andThen_def split: sum.splits)
  from applyCall_keeps_flag [OF step Cons.prems(2)] have "hasErrors mid" .
  with Cons.IH [OF rest] show ?case
    by blast
qed

lemma rowCalls_append:
  "rowCalls (xs @ ys) row = andThen (rowCalls xs row) (rowCalls ys)"
  by (induction xs arbitrary: row) (auto simp: andThen_def split: sum.splits)

text \<open>
  Once \<open>markAsError\<close> has returned, every later sequence of \<open>markAsError\<close>,
  \<open>markAsResolved\<close> and \<open>set\<close> calls leaves \<open>hasErrors()\<close> true.
\<close>

lemma hasErrors_sticky:
  assumes "rowCalls (before @ MarkAsError msgs # after) row = Inr row'"
  shows "hasErrors row'"
proof -
  from assms obtain r1 r2 where "rowCalls before row = Inr r1"
    and m: "markAsError msgs r1 = Inr r2" and a: "rowCalls after r2 = Inr row'"
    by (auto simp: rowCalls_append andThen_def split: sum.splits)
  from markAsError_hasErrors [OF m] rowCalls_keep_flag [OF a] show ?thesis
    by blast
qed

text \<open>
  Claim C8. On a row on which \<open>markAsError\<close> has returned, \<open>markAsResolved\<close> returns
  normally, clears the error text (the \<open>errorMessage\<close> value is the empty string) and the
  highlight (the background is \<open>null\<close>), and leaves the error flag set: \<open>hasErrors()\<close>
  is still true.
\<close>

theorem markAsResolved_keeps_error_flag:
  assumes "markAsError msgs row = Inr row1"
  shows "\<exists>row2. markAsResolved row1 = Inr row2
            \<and> hasErrors row2
            \<and> getCellValue ''errorMessage'' row2 = Inr (Str [])
            \<and> rangeBackground row2 = None"
proof -
  from markAsError_columns [OF assms] obtain i
    where i: "columnNamesToIndices row1 ''errorMessage'' = Some i"
    by auto
  then obtain row2 where r: "markAsResolved row1 = Inr row2"
    by (simp add: markAsResolved_def setCell_def getColumnIndex_def andThen_def)
  from markAsResolved_hasErrors [OF r] markAsError_hasErrors [OF assms]
  have "hasErrors row2" by simp
  moreover from r i have "getCellValue ''errorMessage'' row2 = Inr (Str [])"
    by (auto simp: markAsResolved_def setCell_def getCellValue_def getColumnIndex_def andThen_def)
  moreover from r i have "rangeBackground row2 = None"
    by (auto simp: markAsResolved_def setCell_def getColumnIndex_def andThen_def)
  ultimately show ?thesis using r by blast
qed

lemma markAsError_exampleRow:
  "markAsError (OneMessage ''bad'') exampleRow =
     Inr (exampleRow\<lparr>rangeBackground := Some ''red'',
            rangeCells := (rangeCells exampleRow)(2 := Str (''- bad'' @ [CHR 0x0A])),
            rowValues := (rowValues exampleRow)(2 := Str (''- bad'' @ [CHR 0x0A])),
            hasErrorsFlag := True\<rparr>)"
  by (simp add: markAsError_def exampleRow_def setCell_def getCellValue_def getColumnIndex_def
        andThen_def print_def trim_def isWhiteSpace_def Let_def)

theorem markAsResolved_keeps_error_flag_witness:
  "\<exists>row1. markAsError (OneMessage ''bad'') exampleRow = Inr row1
     \<and> rangeBackground row1 = Some ''red''
     \<and> (\<exists>row2. markAsResolved row1 = Inr row2
            \<and> hasErrors row2
            \<and> getCellValue ''errorMessage'' row2 = Inr (Str [])
            \<and> rangeBackground row2 = None)"
  using markAsResolved_keeps_error_flag [OF markAsError_exampleRow] markAsError_exampleRow
  by simp

section \<open>Label diff: properties\<close>

lemma addLoop_add:
  "add (addLoop cur ns d) = add d @ filter (\<lambda>l. l \<notin> set cur) (map trim ns)"
  by (induction ns arbitrary: d) (simp_all add: Let_def)

lemma addLoop_remove: "remove (addLoop cur ns d) = remove d"
  by (induction ns arbitrary: d) (simp_all add: Let_def)

lemma addLoop_hasDiff:
  "hasDiff (addLoop cur ns d) \<longleftrightarrow> hasDiff d \<or> filter (\<lambda>l. l \<notin> set cur) (map trim ns) \<noteq> []"
  by (induction ns arbitrary: d) (simp_all add: Let_def)

lemma removeLoop_remove:
  "remove (removeLoop new cs d) = remove d @ filter (\<lambda>l. l \<notin> set new) (map trim cs)"
  by (induction cs arbitrary: d) (simp_all add: Let_def)

lemma removeLoop_add: "add (removeLoop new cs d) = add d"
  by (induction cs arbitrary: d) (simp_all add: Let_def)

lemma removeLoop_hasDiff:
  "hasDiff (removeLoop new cs d) \<longleftrightarrow> hasDiff d \<or> filter (\<lambda>l. l \<notin> set new) (map trim cs) \<noteq> []"
  by (induction cs arbitrary: d) (simp_all add: Let_def)

text \<open>What the two loops compute, whatever the labels are.\<close>

lemma diffLabels_add:
  "add (diffLabels cur new) = filter (\<lambda>l. l \<notin> set cur) (map trim new)"
  by (simp add: diffLabels_def removeLoop_add addLoop_add)

lemma diffLabels_remove:
  "remove (diffLabels cur new) = filter (\<lambda>l. l \<notin> set new) (map trim cur)"
  by (simp add: diffLabels_def removeLoop_remove addLoop_remove)

lemma diffLabels_hasDiff:
  "hasDiff (diffLabels cur new) \<longleftrightarrow> add (diffLabels cur new) \<noteq> [] \<or> remove (diffLabels cur new) \<noteq> []"
  by (simp add: diffLabels_add diffLabels_remove)
     (simp add: diffLabels_def removeLoop_hasDiff addLoop_hasDiff)

lemma map_trim_id: "\<forall>l \<in> set xs. trim l = l \<Longrightarrow> map trim xs = xs"
  by (induction xs) simp_all

text \<open>
  Claim C6, as amended. For label lists whose entries carry no leading or trailing white
  space, \<open>add\<close> holds exactly the target labels absent from current, \<open>remove\<close> exactly the
  current labels absent from target, \<open>hasDiff\<close> is true iff one of them is non-empty, and
  the diff of the applied result against the same target has \<open>hasDiff = false\<close>.
\<close>

theorem diffLabels_converges:
  assumes "\<forall>l \<in> set current \<union> set target. trim l = l"
  shows "add (diffLabels current target) = filter (\<lambda>l. l \<notin> set current) target
       \<and> remove (diffLabels current target) = filter (\<lambda>l. l \<notin> set target) current
       \<and> (hasDiff (diffLabels current target)
            \<longleftrightarrow> add (diffLabels current target) \<noteq> [] \<or> remove (diffLabels current target) \<noteq> [])
       \<and> \<not> hasDiff (diffLabels (applyDiff current (diffLabels current target)) target)"
proof -
  from assms have tc: "map trim current = current" and tt: "map trim target = target"
    by (simp_all add: map_trim_id)
  have a: "add (diffLabels current target) = filter (\<lambda>l. l \<notin> set current) target"
    by (simp add: diffLabels_add tt)
  have r: "remove (diffLabels current target) = filter (\<lambda>l. l \<notin> set target) current"
    by (simp add: diffLabels_remove tc)
  let ?next = "applyDiff current (diffLabels current target)"
  have s: "set ?next = set target"
    by (auto simp: applyDiff_def a r)
  with assms have "\<forall>l \<in> set ?next. trim l = l"
    by simp
  then have tn: "map trim ?next = ?next"
    by (rule map_trim_id)
  have "add (diffLabels ?next target) = []"
    by (simp add: diffLabels_add tt s)
  moreover have "remove (diffLabels ?next target) = []"
    by (simp add: diffLabels_remove tn s)
  ultimately have "\<not> hasDiff (diffLabels ?next target)"
    by (simp add: diffLabels_hasDiff)
  with a r diffLabels_hasDiff [of current target] show ?thesis
    by blast
qed

theorem diffLabels_converges_witness:
  "trim ''a'' = ''a'' \<and> trim ''b'' = ''b'' \<and> trim ''c'' = ''c''
   \<and> add (diffLabels [''a'', ''b''] [''b'', ''c'']) = [''c'']
   \<and> remove (diffLabels [''a'', ''b''] [''b'', ''c'']) = [''a'']
   \<and> hasDiff (diffLabels [''a'', ''b''] [''b'', ''c''])
   \<and> applyDiff [''a'', ''b''] (diffLabels [''a'', ''b''] [''b'', ''c'']) = [''b'', ''c'']
   \<and> \<not> hasDiff (diffLabels (applyDiff [''a'', ''b''] (diffLabels [''a'', ''b''] [''b'', ''c'']))
          [''b'', ''c''])"
proof -
  have t: "trim ''a'' = ''a''" "trim ''b'' = ''b''" "trim ''c'' = ''c''"
    by (simp_all add: trim_def isWhiteSpace_def)
  then have h: "\<forall>l \<in> set [''a'', ''b''] \<union> set [''b'', ''c'']. trim l = l"
    by simp
  note inst = diffLabels_converges [OF h]
  from inst have a: "add (diffLabels [''a'', ''b''] [''b'', ''c'']) = [''c'']"
    by simp
  from inst have r: "remove (diffLabels [''a'', ''b''] [''b'', ''c'']) = [''a'']"
    by simp
  from inst have c: "\<not> hasDiff (diffLabels (applyDiff [''a'', ''b'']
      (diffLabels [''a'', ''b''] [''b'', ''c''])) [''b'', ''c''])"
    by blast
  from inst a have d: "hasDiff (diffLabels [''a'', ''b''] [''b'', ''c''])"
    by simp
  have ap: "applyDiff [''a'', ''b''] (diffLabels [''a'', ''b''] [''b'', ''c'']) = [''b'', ''c'']"
    by (simp add: applyDiff_def a r)
  from t a r d ap c show ?thesis
    by blast
qed

text \<open>
  Claim C6 as stated fails on labels with surrounding white space. With current
  \<open>['a']\<close> and target \<open>[' a']\<close>: the target label \<open>' a'\<close> is absent from current and is
  not in \<open>add\<close> (its trimmed form is looked up instead); \<open>'a'\<close> is put in \<open>remove\<close>; and
  after applying the diff, the diff against the same target still has \<open>hasDiff = true\<close>.
\<close>

theorem diffLabels_whitespace_counterexample:
  "'' a'' \<in> set ['' a''] \<and> '' a'' \<notin> set [''a'']
   \<and> '' a'' \<notin> set (add (diffLabels [''a''] ['' a'']))
   \<and> remove (diffLabels [''a''] ['' a'']) = [''a'']
   \<and> hasDiff (diffLabels (applyDiff [''a''] (diffLabels [''a''] ['' a''])) ['' a''])"
  by (simp add: diffLabels_def applyDiff_def trim_def isWhiteSpace_def)

section \<open>Status sync: properties\<close>

lemma trim_toLowerCase_nonempty: "trim s \<noteq> [] \<Longrightarrow> toLowerCase (trim s) \<noteq> []"
  by (simp add: toLowerCase_def)

lemma syncStatus_short_circuit:
  assumes "trim status \<noteq> []" and "getStatus st = Inr (Str (toLowerCase (trim status)))"
  shows "syncStatus status st = Inr (True, st)"
  using assms by (simp add: syncStatus_def andThen_def)

lemma syncStatus_first_call:
  assumes nb: "trim status \<noteq> []"
    and differs: "getStatus st \<noteq> Inr (Str (toLowerCase (trim status)))"
    and res: "resolvesTo st a" and live: "0 < adId a" "\<not> adRejects a"
    and known: "toLowerCase (trim status) = ''enabled'' \<or> toLowerCase (trim status) = ''paused''"
  shows "syncStatus status st =
           Inr (True, st\<lparr>adObject :=
                            Some (a\<lparr>adStatus := (if toLowerCase (trim status) = ''enabled''
                                                    then PlatformEnabled else PlatformPaused)\<rparr>),
                          remoteCalls := remoteCalls st
                            @ [if toLowerCase (trim status) = ''enabled'' then Enable else Pause]\<rparr>)"
  using assms
  by (auto simp: syncStatus_def andThen_def getStatus_def getAd_def hasAdWordsAppAd_def
        switchStatus_def remoteMutation_def resolvesTo_def split: option.splits if_splits)

lemma syncStatus_second_call:
  assumes nb: "trim status \<noteq> []" and live: "0 < adId a"
    and known: "toLowerCase (trim status) = ''enabled'' \<or> toLowerCase (trim status) = ''paused''"
    and st1: "st1 = st\<lparr>adObject :=
                            Some (a\<lparr>adStatus := (if toLowerCase (trim status) = ''enabled''
                                                    then PlatformEnabled else PlatformPaused)\<rparr>),
                          remoteCalls := cs\<rparr>"
  shows "syncStatus status st1 = Inr (True, st1)"
proof (rule syncStatus_short_circuit [OF nb])
  from known live show "getStatus st1 = Inr (Str (toLowerCase (trim status)))"
    unfolding st1 by (auto simp: getStatus_def)
qed

lemma syncStatus_unknown:
  assumes nb: "trim status \<noteq> []"
    and differs: "getStatus st \<noteq> Inr (Str (toLowerCase (trim status)))"
    and res: "resolvesTo st a" and live: "0 \<le> adId a"
    and unknown: "toLowerCase (trim status) \<noteq> ''enabled''" "toLowerCase (trim status) \<noteq> ''paused''"
  shows "\<exists>st1. syncStatus status st = Inr (False, st1) \<and> remoteCalls st1 = remoteCalls st"
  using assms trim_toLowerCase_nonempty [OF nb]
  by (auto simp: syncStatus_def andThen_def getStatus_def getAd_def hasAdWordsAppAd_def
        switchStatus_def resolvesTo_def split: option.splits if_splits)

lemma syncStatus_blank_raises:
  "trim status = [] \<Longrightarrow> syncStatus status st = Inl (Thrown ''Incorrect status parameter.'')"
  by (simp add: syncStatus_def)

text \<open>
  Claim C2, as amended. For a declared status that is not blank, with \<open>target\<close> its
  trimmed, lower-cased form:
  \<^item> when the current status equals \<open>target\<close>, the call returns \<open>true\<close> and changes nothing
    (no remote mutation);
  \<^item> when it differs, the \<open>Ad\<close> stands for a platform ad with a positive identifier whose
    \<open>enable\<close>/\<open>pause\<close> calls succeed, and \<open>target\<close> is \<open>enabled\<close> or \<open>paused\<close>, the call
    returns \<open>true\<close> after exactly one remote mutation, and a second call with the same
    status returns \<open>true\<close> and changes nothing: one remote mutation in all;
  \<^item> when it differs, the \<open>Ad\<close> stands for a platform ad whose identifier is not negative,
    and \<open>target\<close> is neither \<open>enabled\<close> nor \<open>paused\<close>, the call returns \<open>false\<close> without raising
    and without a remote mutation.
\<close>

theorem syncStatus_idempotent:
  assumes "trim status \<noteq> []" and "target = toLowerCase (trim status)"
  shows "(getStatus st = Inr (Str target) \<longrightarrow> syncStatus status st = Inr (True, st))
       \<and> (getStatus st \<noteq> Inr (Str target) \<and> resolvesTo st a \<and> 0 < adId a \<and> \<not> adRejects a
            \<and> (target = ''enabled'' \<or> target = ''paused'')
          \<longrightarrow> (\<exists>st1. syncStatus status st = Inr (True, st1)
                 \<and> remoteCalls st1 = remoteCalls st @ [if target = ''enabled'' then Enable else Pause]
                 \<and> syncStatus status st1 = Inr (True, st1)))
       \<and> (getStatus st \<noteq> Inr (Str target) \<and> resolvesTo st a \<and> 0 \<le> adId a
            \<and> target \<noteq> ''enabled'' \<and> target \<noteq> ''paused''
          \<longrightarrow> (\<exists>st1. syncStatus status st = Inr (False, st1) \<and> remoteCalls st1 = remoteCalls st))"
proof (intro conjI impI)
  assume "getStatus st = Inr (Str target)"
  with assms show "syncStatus status st = Inr (True, st)"
    by (simp add: syncStatus_short_circuit)
next
  assume h: "getStatus st \<noteq> Inr (Str target) \<and> resolvesTo st a \<and> 0 < adId a \<and> \<not> adRejects a
            \<and> (target = ''enabled'' \<or> target = ''paused'')"
  let ?st1 = "st\<lparr>adObject :=
                   Some (a\<lparr>adStatus := (if toLowerCase (trim status) = ''enabled''
                                           then PlatformEnabled else PlatformPaused)\<rparr>),
                 remoteCalls := remoteCalls st
                   @ [if toLowerCase (trim status) = ''enabled'' then Enable else Pause]\<rparr>"
  from h assms have first: "syncStatus status st = Inr (True, ?st1)"
    by (intro syncStatus_first_call) simp_all
  from h assms have second: "syncStatus status ?st1 = Inr (True, ?st1)"
    by (intro syncStatus_second_call [where a = a and st = st]) simp_all
  from first second assms(2)
  show "\<exists>st1. syncStatus status st = Inr (True, st1)
          \<and> remoteCalls st1 = remoteCalls st @ [if target = ''enabled'' then Enable else Pause]
          \<and> syncStatus status st1 = Inr (True, st1)"
    by (intro exI [where x = ?st1]) simp
next
  assume h: "getStatus st \<noteq> Inr (Str target) \<and> resolvesTo st a \<and> 0 \<le> adId a
            \<and> target \<noteq> ''enabled'' \<and> target \<noteq> ''paused''"
  with assms show "\<exists>st1. syncStatus status st = Inr (False, st1) \<and> remoteCalls st1 = remoteCalls st"
    by (intro syncStatus_unknown [where a = a]) simp_all
qed

lemma normalize_examples:
  "trim '' Enabled '' = ''Enabled''" "toLowerCase ''Enabled'' = ''enabled''"
  "trim ''disabled'' = ''disabled''" "toLowerCase ''disabled'' = ''disabled''"
  "trim ''enabled'' = ''enabled''" "toLowerCase ''enabled'' = ''enabled''"
  "trim ''paused'' = ''paused''" "toLowerCase ''paused'' = ''paused''"
  by code_simp+

theorem syncStatus_idempotent_witness:
  "trim '' Enabled '' \<noteq> [] \<and> ''enabled'' = toLowerCase (trim '' Enabled '')
   \<and> getStatus pausedAd \<noteq> Inr (Str ''enabled'')
   \<and> resolvesTo pausedAd \<lparr>adId = 7, adStatus = PlatformPaused, adRejects = False\<rparr>
   \<and> (\<exists>st1. syncStatus '' Enabled '' pausedAd = Inr (True, st1)
          \<and> remoteCalls st1 = remoteCalls pausedAd @ [Enable]
          \<and> getStatus st1 = Inr (Str ''enabled'')
          \<and> syncStatus '' Enabled '' st1 = Inr (True, st1))
   \<and> trim ''paused'' \<noteq> [] \<and> getStatus pausedAd = Inr (Str (toLowerCase (trim ''paused'')))
   \<and> syncStatus ''paused'' pausedAd = Inr (True, pausedAd)
   \<and> trim ''disabled'' \<noteq> [] \<and> getStatus pausedAd \<noteq> Inr (Str (toLowerCase (trim ''disabled'')))
   \<and> toLowerCase (trim ''disabled'') \<noteq> ''enabled'' \<and> toLowerCase (trim ''disabled'') \<noteq> ''paused''
   \<and> (\<exists>st1. syncStatus ''disabled'' pausedAd = Inr (False, st1)
          \<and> remoteCalls st1 = remoteCalls pausedAd)"
proof -
  have nb: "trim '' Enabled '' \<noteq> []" and t: "''enabled'' = toLowerCase (trim '' Enabled '')"
    by (simp_all add: normalize_examples)
  have g: "getStatus pausedAd \<noteq> Inr (Str ''enabled'')"
    by (simp add: getStatus_def pausedAd_def)
  have r: "resolvesTo pausedAd \<lparr>adId = 7, adStatus = PlatformPaused, adRejects = False\<rparr>"
    by (simp add: resolvesTo_def pausedAd_def)
  from syncStatus_idempotent [OF nb t, of pausedAd
      "\<lparr>adId = 7, adStatus = PlatformPaused, adRejects = False\<rparr>"] g r
  obtain st1 where s: "syncStatus '' Enabled '' pausedAd = Inr (True, st1)"
    "remoteCalls st1 = remoteCalls pausedAd @ [Enable]"
    "syncStatus '' Enabled '' st1 = Inr (True, st1)"
    by auto
  from s(1) have e: "getStatus st1 = Inr (Str ''enabled'')"
    by (auto simp: syncStatus_def andThen_def getStatus_def hasAdWordsAppAd_def switchStatus_def
          remoteMutation_def pausedAd_def normalize_examples)
  have nbp: "trim ''paused'' \<noteq> []" and nbd: "trim ''disabled'' \<noteq> []"
    by (simp_all add: normalize_examples)
  have gp: "getStatus pausedAd = Inr (Str (toLowerCase (trim ''paused'')))"
    by (simp add: getStatus_def pausedAd_def normalize_examples)
  from syncStatus_idempotent [OF nbp refl, of pausedAd] gp
  have p: "syncStatus ''paused'' pausedAd = Inr (True, pausedAd)"
    by blast
  have gd: "getStatus pausedAd \<noteq> Inr (Str (toLowerCase (trim ''disabled'')))"
    by (simp add: getStatus_def pausedAd_def normalize_examples)
  have u: "toLowerCase (trim ''disabled'') \<noteq> ''enabled''" "toLowerCase (trim ''disabled'') \<noteq> ''paused''"
    by (simp_all add: normalize_examples)
  from syncStatus_idempotent [OF nbd refl, of pausedAd
      "\<lparr>adId = 7, adStatus = PlatformPaused, adRejects = False\<rparr>"] gd r u
  have d: "\<exists>st1. syncStatus ''disabled'' pausedAd = Inr (False, st1)
          \<and> remoteCalls st1 = remoteCalls pausedAd"
    by simp
  from nb t g r s e nbp gp p nbd gd u d show ?thesis
    by blast
qed

text \<open>
  Claim C2 as stated fails on an ad built in preview mode (a negative identifier): the
  unknown status \<open>disabled\<close> is answered \<open>true\<close>, not failure, and a sync to \<open>enabled\<close> of
  this paused ad is answered \<open>true\<close> with the state unchanged, so that repeating it makes
  no remote mutation at all.
\<close>

theorem syncStatus_preview_counterexample:
  "toLowerCase (trim ''disabled'') \<noteq> ''enabled'' \<and> toLowerCase (trim ''disabled'') \<noteq> ''paused''
   \<and> toLowerCase (trim ''disabled'') \<noteq> []
   \<and> syncStatus ''disabled'' previewAd = Inr (True, previewAd)
   \<and> getStatus previewAd \<noteq> Inr (Str ''enabled'')
   \<and> syncStatus ''enabled'' previewAd = Inr (True, previewAd)
   \<and> remoteCalls previewAd = []"
  by (simp add: syncStatus_def andThen_def getStatus_def hasAdWordsAppAd_def switchStatus_def
        previewAd_def normalize_examples)

section \<open>Creation validation: properties\<close>

lemma checkKeys_strings:
  "checkKeys False [''string''] kvs n =
     (if list_all (\<lambda>kv. typeOf (snd kv) = ''string'') kvs
      then Inr (Inr (n + length kvs))
      else Inr (Inl (''key `'' @ fst (hd (filter (\<lambda>kv. typeOf (snd kv) \<noteq> ''string'') kvs))
              @ ''` has an invalid type `''
              @ typeOf (snd (hd (filter (\<lambda>kv. typeOf (snd kv) \<noteq> ''string'') kvs))) @ ''`'')))"
  by (induction kvs arbitrary: n) auto

lemma isValidParamsObject_strings:
  assumes "\<not> shadowsHasOwnProperty cp"
  shows "\<exists>r. isValidParamsObject cp (Some [''string'']) False = Inr r
            \<and> (success r \<longleftrightarrow> paramsAccepted cp)"
proof (cases cp)
  case (JObj kvs)
  with assms show ?thesis
    by (simp add: isValidParamsObject_def paramsAccepted_def andThen_def checkKeys_strings)
qed (simp_all add: isValidParamsObject_def paramsAccepted_def)

lemma isValidParamsObject_shadowed:
  assumes "shadowsHasOwnProperty cp"
  shows "isValidParamsObject cp (Some types) False = Inl TypeError"
proof (cases cp)
  case (JObj kvs)
  with assms obtain kv rest where "kvs = kv # rest"
    by (cases kvs) auto
  with JObj assms show ?thesis
    by (cases kv) (simp add: isValidParamsObject_def andThen_def)
qed (use assms in simp_all)

lemma errors_distinct:
  "distinct [errFinalUrlMissing, errFinalUrlSingle, errHeadline1, errHeadline2, errDescription,
     errPath1, errMobileSingle, errCustomParameters]"
  by (simp add: errFinalUrlMissing_def errFinalUrlSingle_def errHeadline1_def errHeadline2_def
        errDescription_def errPath1_def errMobileSingle_def errCustomParameters_def)

lemma exactly_one: "(\<exists>u. us = [u]) \<longleftrightarrow> \<not> length us < 1 \<and> \<not> 1 < length us"
  by (cases us) auto

text \<open>The errors that the validation collects, given what the parameter check answered.\<close>

lemma isValidForETACreation_errors:
  assumes "isValidParamsObject (customParameters e) (Some [''string'']) False = Inr r"
  shows "isValidForETACreation e =
     Inr \<lparr>createdAd = None,
          errors =
            (if finalURLs e = None \<or> finalURLs e = Some [] then [errFinalUrlMissing] else [])
            @ (if \<exists>us. finalURLs e = Some us \<and> 1 < length us then [errFinalUrlSingle] else [])
            @ (if headline1 e = [] then [errHeadline1] else [])
            @ (if headline2 e = [] then [errHeadline2] else [])
            @ (if description e = [] then [errDescription] else [])
            @ (if path2 e \<noteq> [] \<and> path1 e = [] then [errPath1] else [])
            @ (if \<exists>us. mobileFinalURLs e = Some us \<and> 1 < length us then [errMobileSingle] else [])
            @ (if \<not> success r then [errCustomParameters] else [])\<rparr>"
  using assms
  by (cases "finalURLs e"; cases "mobileFinalURLs e")
     (simp_all add: isValidForETACreation_def andThen_def Let_def)

text \<open>
  Claim C4, as amended. On a row object whose custom parameters have no own property
  named \<open>hasOwnProperty\<close>, \<open>isValidForETACreation\<close> returns, with an empty \<open>errors\<close> list
  exactly when \<open>finalURLs\<close> has exactly one element, \<open>headline1\<close>, \<open>headline2\<close> and
  \<open>description\<close> are not empty, \<open>path2\<close> is set only when \<open>path1\<close> is, \<open>mobileFinalURLs\<close>
  has at most one element, and \<open>customParameters\<close> is absent (\<open>null\<close> or \<open>undefined\<close>), a
  blank string or an object all of whose values are strings; and each violated rule has
  its own message in \<open>errors\<close> (a missing and a multiple final URL have different ones).
\<close>

theorem isValidForETACreation_accepts:
  assumes "\<not> shadowsHasOwnProperty (customParameters e)"
  shows "\<exists>errs. isValidForETACreation e = Inr \<lparr>createdAd = None, errors = errs\<rparr>
     \<and> (errs = [] \<longleftrightarrow>
          (\<exists>u. finalURLs e = Some [u]) \<and> headline1 e \<noteq> [] \<and> headline2 e \<noteq> []
          \<and> description e \<noteq> [] \<and> (path2 e \<noteq> [] \<longrightarrow> path1 e \<noteq> [])
          \<and> (\<forall>us. mobileFinalURLs e = Some us \<longrightarrow> length us \<le> 1)
          \<and> paramsAccepted (customParameters e))
     \<and> (errFinalUrlMissing \<in> set errs \<longleftrightarrow> finalURLs e = None \<or> finalURLs e = Some [])
     \<and> (errFinalUrlSingle \<in> set errs \<longleftrightarrow> (\<exists>us. finalURLs e = Some us \<and> 1 < length us))
     \<and> (errHeadline1 \<in> set errs \<longleftrightarrow> headline1 e = [])
     \<and> (errHeadline2 \<in> set errs \<longleftrightarrow> headline2 e = [])
     \<and> (errDescription \<in> set errs \<longleftrightarrow> description e = [])
     \<and> (errPath1 \<in> set errs \<longleftrightarrow> path2 e \<noteq> [] \<and> path1 e = [])
     \<and> (errMobileSingle \<in> set errs \<longleftrightarrow> (\<exists>us. mobileFinalURLs e = Some us \<and> 1 < length us))
     \<and> (errCustomParameters \<in> set errs \<longleftrightarrow> \<not> paramsAccepted (customParameters e))"
proof -
  from isValidParamsObject_strings [OF assms] obtain r
    where r: "isValidParamsObject (customParameters e) (Some [''string'']) False = Inr r"
      and acc: "success r \<longleftrightarrow> paramsAccepted (customParameters e)"
    by blast
  note errs = isValidForETACreation_errors [OF r]
  let ?errs = "(if finalURLs e = None \<or> finalURLs e = Some [] then [errFinalUrlMissing] else [])
            @ (if \<exists>us. finalURLs e = Some us \<and> 1 < length us then [errFinalUrlSingle] else [])
            @ (if headline1 e = [] then [errHeadline1] else [])
            @ (if headline2 e = [] then [errHeadline2] else [])
            @ (if description e = [] then [errDescription] else [])
            @ (if path2 e \<noteq> [] \<and> path1 e = [] then [errPath1] else [])
            @ (if \<exists>us. mobileFinalURLs e = Some us \<and> 1 < length us then [errMobileSingle] else [])
            @ (if \<not> success r then [errCustomParameters] else [])"
  have one: "(\<exists>u. finalURLs e = Some [u])
      \<longleftrightarrow> \<not> (finalURLs e = None \<or> finalURLs e = Some []) \<and> \<not> (\<exists>us. finalURLs e = Some us \<and> 1 < length us)"
    by (cases "finalURLs e") (auto simp: exactly_one)
  have mob: "(\<forall>us. mobileFinalURLs e = Some us \<longrightarrow> length us \<le> 1)
      \<longleftrightarrow> \<not> (\<exists>us. mobileFinalURLs e = Some us \<and> 1 < length us)"
    by (cases "mobileFinalURLs e") auto
  have empty: "?errs = [] \<longleftrightarrow>
          (\<exists>u. finalURLs e = Some [u]) \<and> headline1 e \<noteq> [] \<and> headline2 e \<noteq> []
          \<and> description e \<noteq> [] \<and> (path2 e \<noteq> [] \<longrightarrow> path1 e \<noteq> [])
          \<and> (\<forall>us. mobileFinalURLs e = Some us \<longrightarrow> length us \<le> 1)
          \<and> paramsAccepted (customParameters e)"
    unfolding one mob using acc by simp
  have m1: "errFinalUrlMissing \<in> set ?errs \<longleftrightarrow> finalURLs e = None \<or> finalURLs e = Some []"
    using errors_distinct by auto
  have m2: "errFinalUrlSingle \<in> set ?errs \<longleftrightarrow> (\<exists>us. finalURLs e = Some us \<and> 1 < length us)"
    using errors_distinct by auto
  have m3: "errHeadline1 \<in> set ?errs \<longleftrightarrow> headline1 e = []"
    using errors_distinct by auto
  have m4: "errHeadline2 \<in> set ?errs \<longleftrightarrow> headline2 e = []"
    using errors_distinct by auto
  have m5: "errDescription \<in> set ?errs \<longleftrightarrow> description e = []"
    using errors_distinct by auto
  have m6: "errPath1 \<in> set ?errs \<longleftrightarrow> path2 e \<noteq> [] \<and> path1 e = []"
    using errors_distinct by auto
  have m7: "errMobileSingle \<in> set ?errs \<longleftrightarrow> (\<exists>us. mobileFinalURLs e = Some us \<and> 1 < length us)"
    using errors_distinct by auto
  have m8: "errCustomParameters \<in> set ?errs \<longleftrightarrow> \<not> paramsAccepted (customParameters e)"
    using errors_distinct acc by auto
  from errs empty m1 m2 m3 m4 m5 m6 m7 m8 show ?thesis
    by (intro exI [where x = ?errs] conjI)
qed

theorem isValidForETACreation_accepts_witness:
  "\<not> shadowsHasOwnProperty (customParameters taggedEta)
   \<and> paramsAccepted (customParameters taggedEta)
   \<and> isValidForETACreation taggedEta = Inr \<lparr>createdAd = None, errors = []\<rparr>
   \<and> \<not> shadowsHasOwnProperty (customParameters rejectedEta)
   \<and> headline2 rejectedEta = [] \<and> \<not> paramsAccepted (customParameters rejectedEta)
   \<and> (\<exists>errs. isValidForETACreation rejectedEta = Inr \<lparr>createdAd = None, errors = errs\<rparr>
          \<and> errs \<noteq> [] \<and> errHeadline2 \<in> set errs \<and> errCustomParameters \<in> set errs
          \<and> errHeadline1 \<notin> set errs)"
proof -
  have ns: "\<not> shadowsHasOwnProperty (customParameters taggedEta)"
    by (simp add: taggedEta_def exampleEta_def)
  have pa: "paramsAccepted (customParameters taggedEta)"
    by (simp add: taggedEta_def exampleEta_def paramsAccepted_def)
  from isValidForETACreation_accepts [OF ns] obtain errs
    where res: "isValidForETACreation taggedEta = Inr \<lparr>createdAd = None, errors = errs\<rparr>"
      and iff: "errs = [] \<longleftrightarrow>
          (\<exists>u. finalURLs taggedEta = Some [u]) \<and> headline1 taggedEta \<noteq> []
          \<and> headline2 taggedEta \<noteq> [] \<and> description taggedEta \<noteq> []
          \<and> (path2 taggedEta \<noteq> [] \<longrightarrow> path1 taggedEta \<noteq> [])
          \<and> (\<forall>us. mobileFinalURLs taggedEta = Some us \<longrightarrow> length us \<le> 1)
          \<and> paramsAccepted (customParameters taggedEta)"
    by (elim exE conjE) (rule that)
  from pa have "(\<exists>u. finalURLs taggedEta = Some [u]) \<and> headline1 taggedEta \<noteq> []
          \<and> headline2 taggedEta \<noteq> [] \<and> description taggedEta \<noteq> []
          \<and> (path2 taggedEta \<noteq> [] \<longrightarrow> path1 taggedEta \<noteq> [])
          \<and> (\<forall>us. mobileFinalURLs taggedEta = Some us \<longrightarrow> length us \<le> 1)
          \<and> paramsAccepted (customParameters taggedEta)"
    by (simp add: taggedEta_def exampleEta_def)
  with iff have "errs = []"
    by (rule iffD2)
  with res have good: "isValidForETACreation taggedEta = Inr \<lparr>createdAd = None, errors = []\<rparr>"
    by simp
  have ns': "\<not> shadowsHasOwnProperty (customParameters rejectedEta)"
    by (simp add: rejectedEta_def exampleEta_def)
  have h2: "headline2 rejectedEta = []" and h1: "headline1 rejectedEta \<noteq> []"
    by (simp_all add: rejectedEta_def exampleEta_def)
  have np: "\<not> paramsAccepted (customParameters rejectedEta)"
    by (simp add: rejectedEta_def exampleEta_def paramsAccepted_def)
  from isValidForETACreation_accepts [OF ns'] obtain errs'
    where res': "isValidForETACreation rejectedEta = Inr \<lparr>createdAd = None, errors = errs'\<rparr>"
      and e1: "errHeadline1 \<in> set errs' \<longleftrightarrow> headline1 rejectedEta = []"
      and e2: "errHeadline2 \<in> set errs' \<longleftrightarrow> headline2 rejectedEta = []"
      and e8: "errCustomParameters \<in> set errs' \<longleftrightarrow> \<not> paramsAccepted (customParameters rejectedEta)"
    by (elim exE conjE) (rule that)
  from e2 h2 have i2: "errHeadline2 \<in> set errs'"
    by simp
  then have ne: "errs' \<noteq> []"
    by auto
  from e8 np have i8: "errCustomParameters \<in> set errs'"
    by simp
  from e1 h1 have i1: "errHeadline1 \<notin> set errs'"
    by simp
  from res' ne i2 i8 i1
  have bad: "\<exists>errs. isValidForETACreation rejectedEta = Inr \<lparr>createdAd = None, errors = errs\<rparr>
          \<and> errs \<noteq> [] \<and> errHeadline2 \<in> set errs \<and> errCustomParameters \<in> set errs
          \<and> errHeadline1 \<notin> set errs"
    by (intro exI [where x = errs'] conjI)
  from ns pa good ns' h2 np bad show ?thesis
    by (intro conjI)
qed

text \<open>
  Claim C4 as stated fails on custom parameters that are not a mapping and pass all the
  same: a row object with every other rule met is accepted with \<open>customParameters = null\<close>
  (what \<open>parseETA\<close> yields for an empty cell) and with a blank string.
\<close>

theorem isValidForETACreation_null_counterexample:
  "\<not> isFlatStringMapping (customParameters exampleEta)
   \<and> isValidForETACreation exampleEta = Inr \<lparr>createdAd = None, errors = []\<rparr>
   \<and> \<not> isFlatStringMapping (JStr '' '')
   \<and> isValidForETACreation (exampleEta\<lparr>customParameters := JStr '' ''\<rparr>)
       = Inr \<lparr>createdAd = None, errors = []\<rparr>"
  by (simp add: isValidForETACreation_def isValidParamsObject_def andThen_def exampleEta_def
        trim_def isWhiteSpace_def)

end
